theory Spec2Isabelle
  imports Complex_Main
begin

section \<open>Python values used by generate\_video.py\<close>

text \<open>
  A Python \<open>str\<close> is a sequence of Unicode code points, so it is modelled as a list of
  natural numbers. ASCII literals of the source are written \<open>py_str ''...''\<close>; the
  non-ASCII literals (Chinese text, emoji) are written as their code points.
\<close>

type_synonym ustr = "nat list"

definition py_str :: "string \<Rightarrow> ustr" where
  "py_str s = map of_char s"

text \<open>
  The exceptions that can travel through the script. \<open>is_Exception\<close> is the test
  \<open>isinstance(e, Exception)\<close>: \<open>KeyboardInterrupt\<close>, \<open>SystemExit\<close> and
  \<open>GeneratorExit\<close> derive from \<open>BaseException\<close> only. \<open>LibraryError\<close> stands for any
  other subclass of \<open>Exception\<close> raised by a library (tagged by a number),
  \<open>OtherBaseException\<close> for any other direct subclass of \<open>BaseException\<close>.
\<close>

datatype exc =
    ValueError
  | OverflowError
  | OSError
  | TypeError
  | ZeroDivisionError
  | LibraryError nat
  | KeyboardInterrupt
  | SystemExit int
  | GeneratorExit
  | OtherBaseException nat

fun is_Exception :: "exc \<Rightarrow> bool" where
  "is_Exception KeyboardInterrupt = False"
| "is_Exception (SystemExit _) = False"
| "is_Exception GeneratorExit = False"
| "is_Exception (OtherBaseException _) = False"
| "is_Exception _ = True"

subsection \<open>The builtin \<open>int(s, 16)\<close>\<close>

text \<open>
  \<open>int(s, 16)\<close> on a \<open>str\<close> follows CPython (\<open>PyLong_FromUnicodeObject\<close>, then
  \<open>PyLong_FromString\<close>): non-ASCII white space becomes a blank and non-ASCII decimal
  digits become ASCII digits; then leading white space, an optional sign, an optional
  \<open>0x\<close> prefix (which may be followed by one underscore), hexadecimal digits with single
  underscores between them, and trailing white space. Anything else raises
  \<open>ValueError\<close>, modelled as \<open>None\<close>.
\<close>

definition decimal_starts :: "nat list" where
  \<comment> \<open>first code point of every run of ten decimal digits (category Nd, Unicode 14.0)\<close>
  "decimal_starts =
    [48, 1632, 1776, 1984, 2406, 2534, 2662, 2790, 2918, 3046, 3174, 3302, 3430, 3558,
     3664, 3792, 3872, 4160, 4240, 6112, 6160, 6470, 6608, 6784, 6800, 6992, 7088, 7232,
     7248, 42528, 43216, 43264, 43472, 43504, 43600, 44016, 65296, 66720, 68912, 69734,
     69872, 69942, 70096, 70384, 70736, 70864, 71248, 71360, 71472, 71904, 72016, 72784,
     73040, 73120, 92768, 92864, 93008, 120782, 120792, 120802, 120812, 120822, 123200,
     123632, 125264, 130032]"

definition unicode_todecimal :: "nat \<Rightarrow> nat option" where
  "unicode_todecimal c =
     (case filter (\<lambda>s. s \<le> c \<and> c < s + 10) decimal_starts of
        [] \<Rightarrow> None
      | s # _ \<Rightarrow> Some (c - s))"

definition unicode_isspace :: "nat \<Rightarrow> bool" where
  "unicode_isspace c \<longleftrightarrow>
     c \<in> set [9, 10, 11, 12, 13, 28, 29, 30, 31, 32, 133, 160, 5760, 8192, 8193, 8194,
               8195, 8196, 8197, 8198, 8199, 8200, 8201, 8202, 8232, 8233, 8239, 8287,
               12288]"

definition transform_char :: "nat \<Rightarrow> nat" where
  \<comment> \<open>one character of \<open>_PyUnicode_TransformDecimalAndSpaceToASCII\<close>; 63 is \<open>?\<close>\<close>
  "transform_char ch =
     (if ch < 127 then ch
      else if unicode_isspace ch then 32
      else (case unicode_todecimal ch of None \<Rightarrow> 63 | Some d \<Rightarrow> 48 + d))"

definition transform_decimal_and_space :: "ustr \<Rightarrow> ustr" where
  \<comment> \<open>an ASCII string is returned as it is. CPython cuts the result after the first
      \<open>?\<close>; the parser rejects a string holding \<open>?\<close> wherever it ends, so the cut
      is not written out.\<close>
  "transform_decimal_and_space s =
     (if \<forall>c \<in> set s. c < 128 then s else map transform_char s)"

definition Py_ISSPACE :: "nat \<Rightarrow> bool" where
  "Py_ISSPACE c \<longleftrightarrow> (9 \<le> c \<and> c \<le> 13) \<or> c = 32"

definition digit_value :: "nat \<Rightarrow> nat" where
  \<comment> \<open>the table \<open>_PyLong_DigitValue\<close>: 37 for a character that is no digit\<close>
  "digit_value c =
     (if 48 \<le> c \<and> c \<le> 57 then c - 48
      else if 97 \<le> c \<and> c \<le> 122 then c - 87
      else if 65 \<le> c \<and> c \<le> 90 then c - 55
      else 37)"

fun scan_digits :: "nat \<Rightarrow> nat list \<Rightarrow> ustr \<Rightarrow> (nat list \<times> ustr) option" where
  \<comment> \<open>the scan of \<open>long_from_binary_base\<close>: \<open>prev\<close> is the previous character
      (0 at the start), 95 is the underscore; returns the digits read and the rest\<close>
  "scan_digits prev acc [] = (if prev = 95 then None else Some (rev acc, []))"
| "scan_digits prev acc (c # cs) =
     (if c = 95 then (if prev = 95 then None else scan_digits 95 acc cs)
      else if digit_value c < 16 then scan_digits c (digit_value c # acc) cs
      else if prev = 95 then None
      else Some (rev acc, c # cs))"

definition skip_sign :: "ustr \<Rightarrow> int \<times> ustr" where
  "skip_sign s =
     (case s of
        [] \<Rightarrow> (1, [])
      | c # cs \<Rightarrow> if c = 43 then (1, cs) else if c = 45 then (- 1, cs) else (1, s))"

definition skip_prefix :: "ustr \<Rightarrow> ustr" where
  \<comment> \<open>\<open>0x\<close> or \<open>0X\<close>, then at most one underscore\<close>
  "skip_prefix s =
     (case s of
        c0 # c1 # cs \<Rightarrow>
          if c0 = 48 \<and> (c1 = 120 \<or> c1 = 88)
          then (case cs of c2 # cs' \<Rightarrow> if c2 = 95 then cs' else cs | [] \<Rightarrow> cs)
          else s
      | _ \<Rightarrow> s)"

definition PyLong_FromString :: "ustr \<Rightarrow> int option" where
  "PyLong_FromString s =
     (let (sign, s1) = skip_sign (dropWhile Py_ISSPACE s);
          s2 = skip_prefix s1
      in if s2 \<noteq> [] \<and> hd s2 = 95 then None
         else (case scan_digits 0 [] s2 of
                 None \<Rightarrow> None
               | Some (ds, rest) \<Rightarrow>
                   if ds = [] then None
                   else if dropWhile Py_ISSPACE rest \<noteq> [] then None
                   else Some (sign * int (foldl (\<lambda>v d. 16 * v + d) 0 ds))))"

definition py_int16 :: "ustr \<Rightarrow> int option" where
  "py_int16 s = PyLong_FromString (transform_decimal_and_space s)"

subsection \<open>\<open>hex_to_rgb\<close>\<close>

definition lstrip :: "nat \<Rightarrow> ustr \<Rightarrow> ustr" where
  \<comment> \<open>\<open>s.lstrip(c)\<close> for a single character \<open>c\<close>\<close>
  "lstrip c s = dropWhile (\<lambda>x. x = c) s"

definition slice :: "ustr \<Rightarrow> nat \<Rightarrow> nat \<Rightarrow> ustr" where
  \<comment> \<open>\<open>s[i:j]\<close> for \<open>0 \<le> i \<le> j\<close>: never raises, shorter at the end of the string\<close>
  "slice s i j = take (j - i) (drop i s)"

type_synonym rgb = "int \<times> int \<times> int"

definition hex_to_rgb :: "ustr \<Rightarrow> exc + rgb" where
  \<comment> \<open>the generator is consumed in the order 0, 2, 4; the first slice that does not
      parse raises\<close>
  "hex_to_rgb hex_color =
     (let hex_color = lstrip 35 hex_color in
      case py_int16 (slice hex_color 0 2) of
        None \<Rightarrow> Inl ValueError
      | Some r \<Rightarrow>
          (case py_int16 (slice hex_color 2 4) of
             None \<Rightarrow> Inl ValueError
           | Some g \<Rightarrow>
               (case py_int16 (slice hex_color 4 6) of
                  None \<Rightarrow> Inl ValueError
                | Some b \<Rightarrow> Inr (r, g, b))))"

subsection \<open>Colour codes and channels, as the specification names them\<close>

definition is_hex_digit :: "nat \<Rightarrow> bool" where
  "is_hex_digit c \<longleftrightarrow> (48 \<le> c \<and> c \<le> 57) \<or> (65 \<le> c \<and> c \<le> 70) \<or> (97 \<le> c \<and> c \<le> 102)"

definition is_upper_hex :: "nat \<Rightarrow> bool" where
  "is_upper_hex c \<longleftrightarrow> (48 \<le> c \<and> c \<le> 57) \<or> (65 \<le> c \<and> c \<le> 70)"

definition is_lower_hex :: "nat \<Rightarrow> bool" where
  "is_lower_hex c \<longleftrightarrow> (48 \<le> c \<and> c \<le> 57) \<or> (97 \<le> c \<and> c \<le> 102)"

definition valid_hex6 :: "ustr \<Rightarrow> bool" where
  "valid_hex6 s \<longleftrightarrow> length s = 6 \<and> list_all is_hex_digit s"

definition upper_codes :: "ustr set" where
  "upper_codes = {s. length s = 6 \<and> list_all is_upper_hex s}"

definition lower_codes :: "ustr set" where
  "lower_codes = {s. length s = 6 \<and> list_all is_lower_hex s}"

definition channel :: "int \<Rightarrow> bool" where
  "channel v \<longleftrightarrow> 0 \<le> v \<and> v \<le> 255"

definition rgb_triples :: "rgb set" where
  "rgb_triples = {(r, g, b). channel r \<and> channel g \<and> channel b}"

definition hex_digit_of :: "nat \<Rightarrow> nat \<Rightarrow> nat" where
  "hex_digit_of letter_base v = (if v < 10 then 48 + v else letter_base + (v - 10))"

definition byte_to_hex :: "nat \<Rightarrow> int \<Rightarrow> ustr" where
  "byte_to_hex letter_base v =
     [hex_digit_of letter_base (nat v div 16), hex_digit_of letter_base (nat v mod 16)]"

fun rgb_to_hex :: "nat \<Rightarrow> exc + rgb \<Rightarrow> ustr" where
  "rgb_to_hex letter_base (Inr (r, g, b)) =
     byte_to_hex letter_base r @ byte_to_hex letter_base g @ byte_to_hex letter_base b"
| "rgb_to_hex letter_base (Inl _) = []"

definition strip_marker :: "ustr \<Rightarrow> ustr" where
  \<comment> \<open>the code without its optional leading marker \<open>#\<close>\<close>
  "strip_marker s = (case s of [] \<Rightarrow> [] | c # t \<Rightarrow> if c = 35 then t else s)"

definition malformed :: "ustr \<Rightarrow> bool" where
  "malformed s \<longleftrightarrow> \<not> valid_hex6 (strip_marker s)"

definition hex_digits :: "ustr \<Rightarrow> bool" where
  \<comment> \<open>hexadecimal in the ordinary sense: one or more of the digits 0-9, a-f, A-F\<close>
  "hex_digits x \<longleftrightarrow> x \<noteq> [] \<and> list_all is_hex_digit x"

definition hex_literal2 :: "ustr \<Rightarrow> bool" where
  \<comment> \<open>the strings of at most two characters that \<open>int(s, 16)\<close> accepts, spelled out:
      one digit; two digits; a digit after or before white space; a signed digit\<close>
  "hex_literal2 x =
     (case map transform_char x of
        [a] \<Rightarrow> is_hex_digit a
      | [a, b] \<Rightarrow>
          (is_hex_digit a \<and> is_hex_digit b) \<or> (Py_ISSPACE a \<and> is_hex_digit b) \<or>
          (is_hex_digit a \<and> Py_ISSPACE b) \<or> ((a = 43 \<or> a = 45) \<and> is_hex_digit b)
      | _ \<Rightarrow> False)"

section \<open>Fonts, images and the drawing library\<close>

text \<open>
  What the script obtains from the file system and from the imaging library is an
  environment: which paths exist, which font files load at which size (a load that
  raises is caught by the bare \<open>except\<close>), and the bounding box the library measures
  for a text in a font.
\<close>

datatype font = FreeTypeFont ustr int | DefaultFont

record env =
  path_exists :: "ustr \<Rightarrow> bool"
  truetype_loads :: "ustr \<Rightarrow> int \<Rightarrow> bool"
  textbbox :: "font option \<Rightarrow> ustr \<Rightarrow> int \<times> int \<times> int \<times> int"

text \<open>
  The font loop is written out in every renderer, for two or three sizes. Its variables
  are kept in a list, in the order of the assignments in the \<open>try\<close> block. An
  assignment that raises leaves the variables assigned before it as they are, and the
  loop continues with the next path; when all assignments succeed the loop breaks.
\<close>

fun try_load :: "env \<Rightarrow> ustr \<Rightarrow> int list \<Rightarrow> nat \<Rightarrow> font option list \<Rightarrow> font option list \<times> bool" where
  "try_load E path [] i vars = (vars, True)"
| "try_load E path (s # ss) i vars =
     (if truetype_loads E path s
      then try_load E path ss (Suc i) (vars[i := Some (FreeTypeFont path s)])
      else (vars, False))"

fun font_loop :: "env \<Rightarrow> ustr list \<Rightarrow> int list \<Rightarrow> font option list \<Rightarrow> font option list" where
  "font_loop E [] sizes vars = vars"
| "font_loop E (path # paths) sizes vars =
     (if path_exists E path
      then (case try_load E path sizes 0 vars of
              (vars', True) \<Rightarrow> vars'
            | (vars', False) \<Rightarrow> font_loop E paths sizes vars')
      else font_loop E paths sizes vars)"

definition resolve_fonts :: "env \<Rightarrow> ustr list \<Rightarrow> int list \<Rightarrow> font option list" where
  \<comment> \<open>all variables start as \<open>None\<close>; after the loop only the first one is tested\<close>
  "resolve_fonts E font_paths sizes =
     (let vars = font_loop E font_paths sizes (replicate (length sizes) None)
      in case vars of
           [] \<Rightarrow> []
         | first # _ \<Rightarrow>
             if first = None then replicate (length sizes) (Some DefaultFont) else vars)"

datatype draw_op =
    DrawText "int \<times> int" ustr rgb "font option"
  | DrawRectangle "int \<times> int \<times> int \<times> int" "rgb option" "rgb option" int
  | DrawEllipse "int \<times> int \<times> int \<times> int" "rgb option" "rgb option" int
  | DrawRoundedRectangle "int \<times> int \<times> int \<times> int" int "rgb option"

record image =
  im_size :: "int \<times> int"
  im_color :: rgb
  im_ops :: "draw_op list"

record ndarray =
  shape :: "int \<times> int \<times> int"
  raster :: image

definition and_then :: "exc + 'a \<Rightarrow> ('a \<Rightarrow> exc + 'b) \<Rightarrow> exc + 'b" where
  "and_then m f = (case m of Inl e \<Rightarrow> Inl e | Inr v \<Rightarrow> f v)"

definition Image_new :: "int \<times> int \<Rightarrow> rgb \<Rightarrow> exc + image" where
  \<comment> \<open>\<open>Image.new('RGB', size, color)\<close>: a negative width or height raises\<close>
  "Image_new size' color =
     (if fst size' < 0 \<or> snd size' < 0 then Inl ValueError
      else Inr \<lparr>im_size = size', im_color = color, im_ops = []\<rparr>)"

definition draw :: "image \<Rightarrow> draw_op \<Rightarrow> image" where
  \<comment> \<open>a drawing call changes the pixels of the image, never its size\<close>
  "draw img op = img\<lparr>im_ops := im_ops img @ [op]\<rparr>"

definition np_array :: "image \<Rightarrow> ndarray" where
  \<comment> \<open>\<open>np.array(img)\<close>: a new array of shape (height, width, 3)\<close>
  "np_array img = \<lparr>shape = (snd (im_size img), fst (im_size img), 3), raster = img\<rparr>"

definition bbox_width :: "int \<times> int \<times> int \<times> int \<Rightarrow> int" where
  \<comment> \<open>\<open>bbox[2] - bbox[0]\<close>\<close>
  "bbox_width bbox = (case bbox of (x0, y0, x1, y1) \<Rightarrow> x1 - x0)"

definition bbox_height :: "int \<times> int \<times> int \<times> int \<Rightarrow> int" where
  \<comment> \<open>\<open>bbox[3] - bbox[1]\<close>\<close>
  "bbox_height bbox = (case bbox of (x0, y0, x1, y1) \<Rightarrow> y1 - y0)"

section \<open>Configuration\<close>

definition RESOLUTION :: "int \<times> int" where
  "RESOLUTION = (1920, 1080)"

definition FPS :: nat where
  "FPS = 30"

datatype color_key = Bg_dark | Primary | Secondary | Accent | Text | Text_muted

fun COLORS :: "color_key \<Rightarrow> ustr" where
  "COLORS Bg_dark = py_str ''#0F172A''"
| "COLORS Primary = py_str ''#3B82F6''"
| "COLORS Secondary = py_str ''#10B981''"
| "COLORS Accent = py_str ''#F59E0B''"
| "COLORS Text = py_str ''#F8FAFC''"
| "COLORS Text_muted = py_str ''#94A3B8''"

definition sans_font_paths :: "ustr list" where
  \<comment> \<open>the list used by the chart, logo, chat and closing scenes\<close>
  "sans_font_paths =
     [py_str ''/System/Library/Fonts/PingFang.ttc'',
      py_str ''/System/Library/Fonts/STHeiti Light.ttc'',
      py_str ''/System/Library/Fonts/Helvetica.ttc'']"

section \<open>The frame renderers\<close>

subsection \<open>\<open>create_text_image\<close>\<close>

definition text_font_paths :: "ustr list" where
  "text_font_paths =
     [py_str ''/System/Library/Fonts/PingFang.ttc'',
      py_str ''/System/Library/Fonts/STHeiti Light.ttc'',
      py_str ''/System/Library/Fonts/Helvetica.ttc'',
      py_str ''/usr/share/fonts/truetype/dejavu/DejaVuSans.ttf'']"

definition truthy :: "ustr option \<Rightarrow> bool" where
  \<comment> \<open>\<open>if subtext\<close>: \<open>None\<close> and the empty string are false\<close>
  "truthy s = (case s of None \<Rightarrow> False | Some t \<Rightarrow> t \<noteq> [])"

definition create_text_image ::
  "env \<Rightarrow> ustr \<Rightarrow> int \<times> int \<Rightarrow> int \<Rightarrow> ustr \<Rightarrow> ustr \<Rightarrow> ustr option \<Rightarrow> exc + ndarray" where
  "create_text_image E text size' font_size color bg_color subtext =
     and_then (hex_to_rgb bg_color) (\<lambda>bg.
     and_then (Image_new size' bg) (\<lambda>img.
       let fonts = resolve_fonts E text_font_paths [font_size, font_size div 2];
           font_large = fonts ! 0;
           font_small = fonts ! 1;
           bbox = textbbox E font_large text;
           text_width = bbox_width bbox;
           text_height = bbox_height bbox;
           x = (fst size' - text_width) div 2;
           y = (if truthy subtext then (snd size' - text_height) div 2 - 50
                else (snd size' - text_height) div 2)
       in
       and_then (hex_to_rgb color) (\<lambda>fill.
         let img = draw img (DrawText (x, y) text fill font_large) in
         if truthy subtext then
           (let bbox2 = textbbox E font_small (the subtext);
                text_width2 = bbox_width bbox2;
                x2 = (fst size' - text_width2) div 2;
                y2 = y + text_height + 40
            in and_then (hex_to_rgb (COLORS Text_muted)) (\<lambda>fill2.
                 Inr (np_array (draw img (DrawText (x2, y2) (the subtext) fill2 font_small)))))
         else Inr (np_array img))))"

subsection \<open>\<open>create_comparison_chart\<close>\<close>

text \<open>
  \<open>tokens / max_tokens\<close> is the true division of two integers and gives a float; the
  product with \<open>bar_max_width\<close> is a float product; \<open>int\<close> truncates towards zero.
  A float is modelled by the rational number it holds: \<open>round_double\<close> rounds a
  rational to the nearest IEEE binary64 number, ties to even, with 53 bits of precision
  and the least exponent \<open>-1022\<close>.
\<close>

definition pow2 :: "int \<Rightarrow> rat" where
  "pow2 e = (if 0 \<le> e then 2 ^ nat e else 1 / 2 ^ nat (- e))"

function bit_length :: "int \<Rightarrow> int" where
  \<comment> \<open>the number of binary digits of a positive integer\<close>
  "bit_length n = (if n \<le> 0 then 0 else 1 + bit_length (n div 2))"
  by pat_completeness auto
termination
  by (relation "measure nat") auto

declare bit_length.simps [simp del]

definition ilog2 :: "rat \<Rightarrow> int" where
  \<comment> \<open>for \<open>x > 0\<close>, the exponent \<open>e\<close> with \<open>2^e \<le> x < 2^(e+1)\<close>\<close>
  "ilog2 x = (if 1 \<le> x then bit_length \<lfloor>x\<rfloor> - 1 else - bit_length (\<lceil>1 / x\<rceil> - 1))"

definition round_half_even :: "rat \<Rightarrow> int" where
  "round_half_even x =
     (let f = \<lfloor>x\<rfloor>; d = x - of_int f
      in if d < 1 / 2 then f
         else if 1 / 2 < d then f + 1
         else if even f then f else f + 1)"

definition round_double :: "rat \<Rightarrow> rat" where
  "round_double x =
     (if x = 0 then 0
      else let e = max (ilog2 \<bar>x\<bar>) (- 1022);
               quantum = pow2 (e - 52)
           in of_int (round_half_even (x / quantum)) * quantum)"

datatype pyfloat = Finite rat | Infinity

definition to_double :: "rat \<Rightarrow> pyfloat" where
  \<comment> \<open>a result that rounds to \<open>2^1024\<close> or beyond overflows\<close>
  "to_double x =
     (let r = round_double x in if r \<noteq> 0 \<and> 1024 \<le> ilog2 \<bar>r\<bar> then Infinity else Finite r)"

definition int_truediv :: "int \<Rightarrow> int \<Rightarrow> exc + pyfloat" where
  \<comment> \<open>\<open>a / b\<close> on integers: the correctly rounded quotient, or an exception\<close>
  "int_truediv a b =
     (if b = 0 then Inl ZeroDivisionError
      else (case to_double (of_int a / of_int b) of
              Infinity \<Rightarrow> Inl OverflowError
            | Finite r \<Rightarrow> Inr (Finite r)))"

definition float_mul_int :: "pyfloat \<Rightarrow> int \<Rightarrow> pyfloat" where
  \<comment> \<open>\<open>f * n\<close> for a non-zero integer \<open>n\<close> that a float holds exactly (here 800);
      an overflowing product is infinite, without an exception\<close>
  "float_mul_int f n =
     (case f of Infinity \<Rightarrow> Infinity | Finite r \<Rightarrow> to_double (r * of_int n))"

definition int_of_float :: "pyfloat \<Rightarrow> exc + int" where
  \<comment> \<open>\<open>int(f)\<close>: truncation towards zero; an infinite float raises\<close>
  "int_of_float f =
     (case f of
        Infinity \<Rightarrow> Inl OverflowError
      | Finite r \<Rightarrow> Inr (if 0 \<le> r then \<lfloor>r\<rfloor> else \<lceil>r\<rceil>))"

definition bar_width_of :: "int \<Rightarrow> exc + int" where
  \<comment> \<open>\<open>int((tokens / max_tokens) * bar_max_width)\<close> with \<open>max_tokens = 15000\<close> and
      \<open>bar_max_width = 800\<close>\<close>
  "bar_width_of tokens =
     (let max_tokens = 15000; bar_max_width = 800 in
      and_then (int_truediv tokens max_tokens) (\<lambda>ratio.
        int_of_float (float_mul_int ratio bar_max_width)))"

text \<open>The format \<open>{tokens:,}\<close>: decimal digits, a comma between groups of three.\<close>

fun decimal_digits :: "nat \<Rightarrow> ustr" where
  "decimal_digits n = (if n < 10 then [48 + n] else decimal_digits (n div 10) @ [48 + n mod 10])"

fun group_thousands :: "ustr \<Rightarrow> ustr" where
  \<comment> \<open>on the digits in reverse order\<close>
  "group_thousands (a # b # c # d # rest) = a # b # c # 44 # group_thousands (d # rest)"
| "group_thousands ds = ds"

definition format_comma :: "int \<Rightarrow> ustr" where
  "format_comma n =
     (let body = rev (group_thousands (rev (decimal_digits (nat \<bar>n\<bar>))))
      in if n < 0 then 45 # body else body)"

definition chart_data :: "(ustr \<times> int \<times> ustr \<times> ustr) list" where
  \<comment> \<open>the local list \<open>data\<close>\<close>
  "chart_data =
    [(py_str ''Claude Code'', 15000, py_str ''#EF4444'', py_str ''$0.45''),
     (py_str ''Cursor'', 10000, py_str ''#F59E0B'', py_str ''$0.30''),
     (py_str ''Synapse AI'', 5000, py_str ''#10B981'', [36, 48, 46, 49, 53, 32, 33410, 30465, 54, 48, 37])]"

fun data_loop ::
  "font option \<Rightarrow> font option \<Rightarrow> int \<Rightarrow> (ustr \<times> int \<times> ustr \<times> ustr) list \<Rightarrow> image \<Rightarrow>
     exc + image" where
  \<comment> \<open>\<open>for i, (name, tokens, color, cost) in enumerate(data)\<close>, with \<open>start_y = 250\<close>,
      \<open>bar_height = 80\<close>, \<open>gap = 120\<close>, \<open>bar_max_width = 800\<close>\<close>
  "data_loop font_label font_num i [] img = Inr img"
| "data_loop font_label font_num i ((name, tokens, color, cost) # rest) img =
     (let bar_max_width = 800;
          start_y = 250;
          bar_height = 80;
          gap = 120;
          y = start_y + i * gap
      in
      and_then (bar_width_of tokens) (\<lambda>bar_width.
      and_then (hex_to_rgb (COLORS Text)) (\<lambda>fill.
        let img = draw img (DrawText (150, y + 20) name fill font_label) in
      and_then (hex_to_rgb (py_str ''#1E293B'')) (\<lambda>fill.
      and_then (hex_to_rgb (py_str ''#334155'')) (\<lambda>outline.
        let img = draw img (DrawRectangle (400, y, 400 + bar_max_width, y + bar_height)
                              (Some fill) (Some outline) 2)
        in
      and_then (hex_to_rgb color) (\<lambda>fill.
        let img = draw img (DrawRectangle (400, y, 400 + bar_width, y + bar_height)
                              (Some fill) None 1)
        in
      and_then (hex_to_rgb (COLORS Text)) (\<lambda>fill.
        let img = draw img (DrawText (420 + bar_max_width + 20, y + 25)
                              (format_comma tokens @ py_str '' tokens'') fill font_num);
            cost_x = 420 + bar_max_width + 250
        in
      and_then (hex_to_rgb color) (\<lambda>fill.
        data_loop font_label font_num (i + 1) rest
          (draw img (DrawText (cost_x, y + 25) cost fill font_num))))))))))"

definition create_comparison_chart :: "env \<Rightarrow> exc + ndarray" where
  "create_comparison_chart E =
     and_then (hex_to_rgb (COLORS Bg_dark)) (\<lambda>bg.
     and_then (Image_new RESOLUTION bg) (\<lambda>img.
       let fonts = resolve_fonts E sans_font_paths [48, 32, 28];
           font_title = fonts ! 0;
           font_label = fonts ! 1;
           font_num = fonts ! 2;
           title =
             [21516, 26679, 30340, 20195, 30721, 23457, 26597, 20219, 21153, 32, 45, 32,
              84, 111, 107, 101, 110, 32, 28040, 32791, 23545, 27604];
           bbox = textbbox E font_title title;
           x = (fst RESOLUTION - bbox_width bbox) div 2
       in
       and_then (hex_to_rgb (COLORS Text)) (\<lambda>fill.
         let img = draw img (DrawText (x, 80) title fill font_title) in
         and_then (data_loop font_label font_num 0 chart_data img) (\<lambda>img.
           Inr (np_array img)))))"

subsection \<open>\<open>create_logo_scene\<close>\<close>

definition logo_features :: "ustr list" where
  "logo_features =
     [[10003, 32, 84, 111, 107, 101, 110, 32, 28040, 32791, 38477, 20302, 32, 54, 48, 37],
      [10003, 32, 23436, 20840, 24320, 28304, 20813, 36153],
      [10003, 32, 24494, 20449, 26426, 22120, 20154, 38598, 25104],
      [10003, 32, 26412, 22320, 20248, 20808, 65292, 38544, 31169, 20445, 25252]]"

fun logo_feature_loop ::
  "env \<Rightarrow> font option \<Rightarrow> int \<Rightarrow> int \<Rightarrow> ustr list \<Rightarrow> image \<Rightarrow> exc + image" where
  \<comment> \<open>\<open>for i, feature in enumerate(features)\<close>\<close>
  "logo_feature_loop E font_features y_start i [] img = Inr img"
| "logo_feature_loop E font_features y_start i (feature # rest) img =
     (let bbox = textbbox E font_features feature;
          x = (fst RESOLUTION - bbox_width bbox) div 2
      in and_then (hex_to_rgb (COLORS Secondary)) (\<lambda>fill.
           logo_feature_loop E font_features y_start (i + 1) rest
             (draw img (DrawText (x, y_start + i * 60) feature fill font_features))))"

definition create_logo_scene :: "env \<Rightarrow> exc + ndarray" where
  "create_logo_scene E =
     and_then (hex_to_rgb (COLORS Bg_dark)) (\<lambda>bg.
     and_then (Image_new RESOLUTION bg) (\<lambda>img.
       let fonts = resolve_fonts E sans_font_paths [120, 48, 36];
           font_logo = fonts ! 0;
           font_tagline = fonts ! 1;
           font_features = fonts ! 2;
           center_x = fst RESOLUTION div 2;
           center_y = 280;
           radius = 100
       in
       and_then (hex_to_rgb (COLORS Primary)) (\<lambda>fill.
       and_then (hex_to_rgb (COLORS Secondary)) (\<lambda>outline.
         let img = draw img (DrawEllipse (center_x - radius, center_y - radius,
                                           center_x + radius, center_y + radius)
                               (Some fill) (Some outline) 8);
             name = py_str ''Synapse AI'';
             bbox = textbbox E font_logo name;
             x = (fst RESOLUTION - bbox_width bbox) div 2
         in
         and_then (hex_to_rgb (COLORS Text)) (\<lambda>fill.
           let img = draw img (DrawText (x, 430) name fill font_logo);
               tagline = [36731, 37327, 32423, 20010, 20154, 32, 65, 73, 32, 21161, 25163];
               bbox = textbbox E font_tagline tagline;
               x = (fst RESOLUTION - bbox_width bbox) div 2
           in
           and_then (hex_to_rgb (COLORS Text_muted)) (\<lambda>fill.
             let img = draw img (DrawText (x, 580) tagline fill font_tagline) in
             and_then (logo_feature_loop E font_features 700 0 logo_features img) (\<lambda>img.
               Inr (np_array img))))))))"

subsection \<open>\<open>create_terminal_scene\<close>\<close>

definition mono_font_paths :: "ustr list" where
  "mono_font_paths =
     [py_str ''/System/Library/Fonts/SF-Mono-Regular.otf'',
      py_str ''/System/Library/Fonts/Menlo.ttc'',
      py_str ''/System/Library/Fonts/Courier.dfont'']"

definition commands :: "(ustr \<times> ustr) list" where
  "commands =
     [(py_str ''$ '', py_str ''#6CC644''),
      (py_str ''git clone https://github.com/Ricardo-M-L/synapse-ai.git'', py_str ''#F8FAFC''),
      ([], []),
      (py_str ''$ '', py_str ''#6CC644''),
      (py_str ''cd synapse-ai && npm install'', py_str ''#F8FAFC''),
      ([], []),
      (py_str ''$ '', py_str ''#6CC644''),
      (py_str ''npm run build'', py_str ''#F8FAFC''),
      ([10003, 32, 66, 117, 105, 108, 116, 32, 115, 117, 99, 99, 101, 115, 115, 102, 117,
        108, 108, 121, 32, 105, 110, 32, 50, 46, 51, 52, 115], py_str ''#10B981''),
      ([], []),
      (py_str ''$ '', py_str ''#6CC644''),
      (py_str ''npm run cli -- chat'', py_str ''#F8FAFC''),
      ([], []),
      ([129504, 32, 83, 121, 110, 97, 112, 115, 101, 32, 65, 73, 32, 24050, 21551, 21160,
        65281], py_str ''#3B82F6''),
      ([25552, 31034, 58, 32, 36755, 20837, 32, 47, 104, 101, 108, 112, 32, 26597, 30475,
        21487, 29992, 21629, 20196], py_str ''#94A3B8''),
      (py_str ''synapse> '', py_str ''#F59E0B'')]"

fun command_loop ::
  "font option \<Rightarrow> int \<Rightarrow> (ustr \<times> ustr) list \<Rightarrow> int \<Rightarrow> image \<Rightarrow> exc + image \<times> int" where
  \<comment> \<open>\<open>for text, color in commands\<close>; both statements of the body are under \<open>if text\<close>\<close>
  "command_loop font x [] y img = Inr (img, y)"
| "command_loop font x ((text, color) # rest) y img =
     (if text \<noteq> [] then
        and_then (hex_to_rgb color) (\<lambda>fill.
          command_loop font x rest (y + 40) (draw img (DrawText (x, y) text fill font)))
      else command_loop font x rest y img)"

definition create_terminal_scene :: "env \<Rightarrow> exc + ndarray" where
  "create_terminal_scene E =
     and_then (hex_to_rgb (py_str ''#1E1E1E'')) (\<lambda>bg.
     and_then (Image_new RESOLUTION bg) (\<lambda>img.
       let fonts = resolve_fonts E mono_font_paths [28, 32];
           font = fonts ! 0;
           font_bold = fonts ! 1
       in
       and_then (hex_to_rgb (py_str ''#323232'')) (\<lambda>fill.
         let img = draw img (DrawRectangle (0, 0, fst RESOLUTION, 40) (Some fill) None 1) in
       and_then (hex_to_rgb (py_str ''#FF5F56'')) (\<lambda>fill.
         let img = draw img (DrawEllipse (20, 12, 36, 28) (Some fill) None 1) in
       and_then (hex_to_rgb (py_str ''#FFBD2E'')) (\<lambda>fill.
         let img = draw img (DrawEllipse (46, 12, 62, 28) (Some fill) None 1) in
       and_then (hex_to_rgb (py_str ''#27C93F'')) (\<lambda>fill.
         let img = draw img (DrawEllipse (72, 12, 88, 28) (Some fill) None 1) in
       and_then (command_loop font 40 commands 80 img) (\<lambda>(img, y).
         Inr (np_array img))))))))"

subsection \<open>\<open>create_chat_demo_scene\<close>\<close>

fun split :: "nat \<Rightarrow> ustr \<Rightarrow> ustr list" where
  \<comment> \<open>\<open>s.split(sep)\<close> for a separator of one character: never empty\<close>
  "split sep [] = [[]]"
| "split sep (c # cs) =
     (if c = sep then [] # split sep cs
      else (case split sep cs of
              [] \<Rightarrow> [[c]]
            | w # ws \<Rightarrow> (c # w) # ws))"

definition messages :: "(ustr \<times> ustr) list" where
  "messages =
    [(py_str ''user'',
      [24110, 25105, 20889, 19968, 20010, 32, 80, 121, 116, 104, 111, 110, 32, 33050,
       26412, 65292, 25209, 37327, 37325, 21629, 21517, 25991, 20214]),
     (py_str ''ai'',
      [22909, 30340, 65292, 36825, 26159, 19968, 20010, 20351, 29992, 32, 111, 115, 32,
       27169, 22359, 30340, 33050, 26412, 65306, 10, 10, 105, 109, 112, 111, 114, 116, 32,
       111, 115, 10, 100, 101, 102, 32, 98, 97, 116, 99, 104, 95, 114, 101, 110, 97, 109,
       101, 40, 102, 111, 108, 100, 101, 114, 41, 58, 10, 32, 32, 32, 32, 102, 111, 114,
       32, 102, 32, 105, 110, 32, 111, 115, 46, 108, 105, 115, 116, 100, 105, 114, 40, 102,
       111, 108, 100, 101, 114, 41, 58, 10, 32, 32, 32, 32, 32, 32, 32, 32, 46, 46, 46]),
     (py_str ''user'',
      [26152, 22825, 35828, 30340, 29992, 25143, 31995, 32479, 26041, 26696, 36824, 26377,
       21527, 65311]),
     (py_str ''ai'',
      [24403, 28982, 35760, 24471, 65281, 26152, 22825, 30340, 29992, 25143, 35748, 35777,
       26041, 26696, 65306, 10, 10, 49, 46, 32, 74, 87, 84, 32, 84, 111, 107, 101, 110, 32,
       43, 32, 82, 101, 102, 114, 101, 115, 104, 10, 50, 46, 32, 82, 101, 100, 105, 115,
       32, 23384, 20648, 20250, 35805, 10, 51, 46, 32, 25903, 25345, 22810, 31471, 30331,
       24405, 10, 10, 38656, 35201, 23637, 24320, 21738, 37096, 20998, 65311])]"

fun line_loop ::
  "font option \<Rightarrow> int \<Rightarrow> int \<Rightarrow> int \<Rightarrow> ustr list \<Rightarrow> int \<Rightarrow> image \<Rightarrow> exc + image" where
  \<comment> \<open>\<open>for line in lines\<close>, with the running \<open>text_y\<close>\<close>
  "line_loop font_msg box_x padding line_height [] text_y img = Inr img"
| "line_loop font_msg box_x padding line_height (line # rest) text_y img =
     and_then (hex_to_rgb (COLORS Text)) (\<lambda>fill.
       line_loop font_msg box_x padding line_height rest (text_y + line_height)
         (draw img (DrawText (box_x + padding, text_y) line fill font_msg)))"

definition box_height_of :: "ustr \<Rightarrow> int" where
  \<comment> \<open>\<open>len(lines) * line_height + padding * 2\<close> with \<open>line_height = 30\<close>, \<open>padding = 15\<close>\<close>
  "box_height_of content = int (length (split 10 content)) * 30 + 15 * 2"

fun message_loop ::
  "font option \<Rightarrow> (ustr \<times> ustr) list \<Rightarrow> int \<Rightarrow> image \<Rightarrow> exc + image \<times> int" where
  \<comment> \<open>\<open>for role, content in messages\<close>, with the running \<open>y\<close>; \<open>padding = 15\<close> and
      \<open>max_width = 700\<close> are set before the loop\<close>
  "message_loop font_msg [] y img = Inr (img, y)"
| "message_loop font_msg ((role, content) # rest) y img =
     (let padding = 15;
          max_width = 700;
          is_user = (role = py_str ''user'');
          lines = split 10 content;
          line_height = 30;
          box_height = int (length lines) * line_height + padding * 2;
          box_x = (if is_user then fst RESOLUTION - max_width - 80 else 80);
          color = (if is_user then COLORS Primary else py_str ''#334155'')
      in
      and_then (hex_to_rgb color) (\<lambda>fill.
        let img = draw img (DrawRoundedRectangle (box_x, y, box_x + max_width, y + box_height)
                              12 (Some fill));
            text_y = y + padding
        in
        and_then (line_loop font_msg box_x padding line_height lines text_y img) (\<lambda>img.
          message_loop font_msg rest (y + (box_height + 25)) img)))"

definition create_chat_demo_scene :: "env \<Rightarrow> exc + ndarray" where
  "create_chat_demo_scene E =
     and_then (hex_to_rgb (COLORS Bg_dark)) (\<lambda>bg.
     and_then (Image_new RESOLUTION bg) (\<lambda>img.
       let fonts = resolve_fonts E sans_font_paths [36, 24, 20];
           font_title = fonts ! 0;
           font_msg = fonts ! 1;
           font_small = fonts ! 2
       in
       and_then (hex_to_rgb (py_str ''#1E293B'')) (\<lambda>fill.
         let img = draw img (DrawRectangle (0, 0, fst RESOLUTION, 70) (Some fill) None 1) in
       and_then (hex_to_rgb (COLORS Text)) (\<lambda>fill.
         let img = draw img (DrawText (40, 20) (py_str ''Synapse AI Chat'') fill font_title) in
       and_then (hex_to_rgb (COLORS Secondary)) (\<lambda>fill.
         let img = draw img (DrawText (fst RESOLUTION - 350, 25)
                               (py_str ''Token: 245 | $0.007'') fill font_small)
         in
       and_then (message_loop font_msg messages 120 img) (\<lambda>(img, y).
         let memory_text =
               [20351, 29992, 20102, 25345, 20037, 21270, 35760, 24518, 32, 124, 32, 46,
                115, 121, 110, 97, 112, 115, 101, 47, 109, 101, 109, 111, 114, 105, 101,
                115, 47, 112, 114, 111, 106, 101, 99, 116, 45, 97, 114, 99, 104, 46, 109,
                100]
         in
       and_then (hex_to_rgb (COLORS Accent)) (\<lambda>fill.
         Inr (np_array (draw img (DrawText (80, y + 15) memory_text fill font_small))))))))))"

subsection \<open>\<open>create_github_end_scene\<close>\<close>

definition end_features :: "ustr list" where
  "end_features =
     [[36731, 37327, 32423, 32, 45, 32, 50, 48, 77, 66, 32, 20307, 31215],
      [30465, 38065, 32, 45, 32, 84, 111, 107, 101, 110, 32, 20943, 23569, 32, 54, 48, 37],
      [23433, 20840, 32, 45, 32, 26412, 22320, 20248, 20808],
      [24494, 20449, 32, 45, 32, 26426, 22120, 20154, 38598, 25104]]"

fun end_feature_loop ::
  "env \<Rightarrow> font option \<Rightarrow> ustr list \<Rightarrow> int \<Rightarrow> image \<Rightarrow> exc + image" where
  \<comment> \<open>\<open>for feature in features\<close>, with the running \<open>y\<close>\<close>
  "end_feature_loop E font_small [] y img = Inr img"
| "end_feature_loop E font_small (feature # rest) y img =
     (let bbox = textbbox E font_small feature;
          x = (fst RESOLUTION - bbox_width bbox) div 2
      in and_then (hex_to_rgb (COLORS Text_muted)) (\<lambda>fill.
           end_feature_loop E font_small rest (y + 50)
             (draw img (DrawText (x, y) feature fill font_small))))"

definition create_github_end_scene :: "env \<Rightarrow> exc + ndarray" where
  "create_github_end_scene E =
     and_then (hex_to_rgb (COLORS Bg_dark)) (\<lambda>bg.
     and_then (Image_new RESOLUTION bg) (\<lambda>img.
       let fonts = resolve_fonts E sans_font_paths [72, 48, 36];
           font_large = fonts ! 0;
           font_medium = fonts ! 1;
           font_small = fonts ! 2;
           center_x = fst RESOLUTION div 2;
           center_y = 200
       in
       and_then (hex_to_rgb (COLORS Primary)) (\<lambda>fill.
         let img = draw img (DrawEllipse (center_x - 80, center_y - 80, center_x + 80, center_y + 80)
                               (Some fill) None 1);
             star = [9733];
             bbox = textbbox E font_large star;
             x = center_x - bbox_width bbox div 2;
             y = center_y - bbox_height bbox div 2
         in
       and_then (hex_to_rgb (COLORS Text)) (\<lambda>fill.
         let img = draw img (DrawText (x, y) star fill font_large);
             title = py_str ''Synapse AI'';
             bbox = textbbox E font_large title;
             x = (fst RESOLUTION - bbox_width bbox) div 2
         in
       and_then (hex_to_rgb (COLORS Text)) (\<lambda>fill.
         let img = draw img (DrawText (x, 350) title fill font_large);
             url = py_str ''github.com/Ricardo-M-L/synapse-ai'';
             bbox = textbbox E font_medium url;
             x = (fst RESOLUTION - bbox_width bbox) div 2
         in
       and_then (hex_to_rgb (COLORS Primary)) (\<lambda>fill.
         let img = draw img (DrawText (x, 480) url fill font_medium);
             cta = [28857, 20010, 32, 83, 116, 97, 114, 32, 25903, 25345, 24320, 28304, 65281];
             bbox = textbbox E font_medium cta;
             x = (fst RESOLUTION - bbox_width bbox) div 2
         in
       and_then (hex_to_rgb (COLORS Secondary)) (\<lambda>fill.
         let img = draw img (DrawText (x, 600) cta fill font_medium) in
       and_then (end_feature_loop E font_small end_features 720 img) (\<lambda>img.
         Inr (np_array img)))))))))"

text \<open>The texts an image was drawn with, each with the \<open>y\<close> of its position.\<close>

fun text_rows :: "draw_op list \<Rightarrow> (ustr \<times> int) list" where
  "text_rows [] = []"
| "text_rows (DrawText (x, y) t c f # ops) = (t, y) # text_rows ops"
| "text_rows (_ # ops) = text_rows ops"

text \<open>The fonts an image's texts were drawn with.\<close>

fun text_fonts :: "draw_op list \<Rightarrow> font option list" where
  "text_fonts [] = []"
| "text_fonts (DrawText p t c f # ops) = f # text_fonts ops"
| "text_fonts (_ # ops) = text_fonts ops"

text \<open>An environment for the font loop.\<close>

definition pillow_env :: env where
  \<comment> \<open>an installation where only the DejaVu font file exists and where, as in Pillow,
      a font size that is not positive makes \<open>ImageFont.truetype\<close> raise\<close>
  "pillow_env =
     \<lparr>path_exists = (\<lambda>p. p = py_str ''/usr/share/fonts/truetype/dejavu/DejaVuSans.ttf''),
      truetype_loads = (\<lambda>p s. 0 < s),
      textbbox = (\<lambda>f t. (0, 0, 0, 0))\<rparr>"


section \<open>Clips and the timeline\<close>

text \<open>
  The frames live in a heap of arrays: an address is an index into the list of arrays
  allocated so far, and nothing in the script stores into an array once it is allocated.
  A clip refers to its frame by address, as \<open>ImageClip(img)\<close> keeps a reference to the
  array it is given. Times are in seconds.
\<close>

datatype effect = FadeIn rat | FadeOut rat

record clip =
  clip_frame :: nat
  clip_duration :: "rat option"
  clip_effects :: "effect list"

definition ImageClip :: "nat \<Rightarrow> clip" where
  "ImageClip a = \<lparr>clip_frame = a, clip_duration = None, clip_effects = []\<rparr>"

definition with_duration :: "clip \<Rightarrow> rat \<Rightarrow> clip" where
  "with_duration c d = c\<lparr>clip_duration := Some d\<rparr>"

definition with_effects :: "clip \<Rightarrow> effect list \<Rightarrow> clip" where
  \<comment> \<open>a fade changes the pixels shown during the clip, not its duration\<close>
  "with_effects c effects = c\<lparr>clip_effects := clip_effects c @ effects\<rparr>"

record timeline =
  tl_clips :: "(rat \<times> clip) list"
  tl_duration :: rat

fun place_clips :: "rat \<Rightarrow> clip list \<Rightarrow> exc + (rat \<times> clip) list \<times> rat" where
  \<comment> \<open>the running sum of the durations gives every clip its start; a clip without a
      duration cannot be summed\<close>
  "place_clips t [] = Inr ([], t)"
| "place_clips t (c # cs) =
     (case clip_duration c of
        None \<Rightarrow> Inl TypeError
      | Some d \<Rightarrow>
          and_then (place_clips (t + d) cs) (\<lambda>(placed, end_time).
            Inr ((t, c) # placed, end_time)))"

definition concatenate_videoclips :: "clip list \<Rightarrow> exc + timeline" where
  \<comment> \<open>\<open>method\<close> compose, no padding: the clips follow each other without a gap,
      each keeping its own effects\<close>
  "concatenate_videoclips cs =
     (if cs = [] then Inl ValueError
      else and_then (place_clips 0 cs) (\<lambda>(placed, end_time).
             Inr \<lparr>tl_clips = placed, tl_duration = end_time\<rparr>))"

definition frame_times :: "rat \<Rightarrow> nat \<Rightarrow> rat list" where
  \<comment> \<open>the frames written at \<open>fps\<close> frames per second: \<open>i / fps\<close> for
      \<open>i < int(duration * fps)\<close>\<close>
  "frame_times duration fps =
     map (\<lambda>i. of_nat i / of_nat fps) [0 ..< nat \<lfloor>duration * of_nat fps\<rfloor>]"

fun playing :: "(rat \<times> clip) list \<Rightarrow> rat \<Rightarrow> nat option" where
  \<comment> \<open>the frame of the last clip of the list that plays at time \<open>t\<close>\<close>
  "playing [] t = None"
| "playing ((start, c) # rest) t =
     (case playing rest t of
        Some a \<Rightarrow> Some a
      | None \<Rightarrow>
          (case clip_duration c of
             None \<Rightarrow> None
           | Some d \<Rightarrow> if start \<le> t \<and> t < start + d then Some (clip_frame c) else None))"

record video_file =
  vf_fps :: nat
  vf_codec :: ustr
  vf_audio :: bool
  vf_frames :: "nat option list"

definition write_videofile :: "timeline \<Rightarrow> nat \<Rightarrow> ustr \<Rightarrow> bool \<Rightarrow> video_file" where
  "write_videofile final fps codec audio =
     \<lparr>vf_fps = fps, vf_codec = codec, vf_audio = audio,
      vf_frames = map (playing (tl_clips final)) (frame_times (tl_duration final) fps)\<rparr>"

section \<open>\<open>generate_video\<close> and the entry point\<close>

text \<open>
  The state of a run: the heap of arrays, what was printed, the files written, and the
  local variables \<open>clips\<close> and \<open>final_clip\<close> of \<open>generate_video\<close>. A statement of
  the script is a step on this state that either completes or raises. The function
  \<open>raises\<close> is part of the environment: \<open>raises k\<close> is the exception, if any, with
  which a library call of statement group \<open>k\<close> fails (1 to 6: rendering a scene and
  making its clip; 7: concatenation; 8: writing the file; 9: closing the clips).
\<close>

record state =
  heap :: "ndarray list"
  stdout :: "ustr list"
  stderr :: "ustr list"
  files :: "(ustr \<times> video_file) list"
  clips :: "clip list"
  final_clip :: "timeline option"

type_synonym step = "state \<Rightarrow> exc option \<times> state"

definition print :: "ustr \<Rightarrow> state \<Rightarrow> state" where
  "print line s = s\<lparr>stdout := stdout s @ [line]\<rparr>"

fun run :: "step list \<Rightarrow> step" where
  \<comment> \<open>statements in sequence; an exception ends the sequence\<close>
  "run [] s = (None, s)"
| "run (st # sts) s =
     (case st s of
        (Some e, s') \<Rightarrow> (Some e, s')
      | (None, s') \<Rightarrow> run sts s')"

definition OUTPUT_DIR :: ustr where
  "OUTPUT_DIR =
     [47, 85, 115, 101, 114, 115, 47, 114, 105, 99, 97, 114, 100, 111, 47, 68, 111, 99,
      117, 109, 101, 110, 116, 115, 47, 20844, 21496, 23398, 20064, 25991, 20214, 47, 75,
      105, 109, 105, 95, 65, 103, 101, 110, 116, 95, 67, 108, 97, 119, 100, 98, 111, 116,
      32, 36731, 37327, 21270, 25913, 36896, 47, 115, 121, 110, 97, 112, 115, 101, 45, 97,
      105, 47, 25512, 24191]"

definition path_join :: "ustr \<Rightarrow> ustr \<Rightarrow> ustr" where
  \<comment> \<open>\<open>os.path.join\<close> of two components on a POSIX system\<close>
  "path_join a b =
     (if b \<noteq> [] \<and> hd b = 47 then b
      else if a = [] \<or> last a = 47 then a @ b
      else a @ [47] @ b)"

definition format_1f :: "rat \<Rightarrow> ustr" where
  \<comment> \<open>the format \<open>:.1f\<close>: one decimal, rounded to nearest, ties to even\<close>
  "format_1f d =
     (let r = round_half_even (\<bar>d\<bar> * 10);
          body = decimal_digits (nat (r div 10)) @ [46, 48 + nat (r mod 10)]
      in if d < 0 \<and> r \<noteq> 0 then 45 # body else body)"

definition scene ::
  "(nat \<Rightarrow> exc option) \<Rightarrow> nat \<Rightarrow> ustr \<Rightarrow> exc + ndarray \<Rightarrow> rat \<Rightarrow> effect list \<Rightarrow> step" where
  \<comment> \<open>one scene of \<open>generate_video\<close>: the progress line, the renderer, the clip with
      its duration and its effects, and \<open>clips.append\<close>\<close>
  "scene raises k banner rendered duration effects s =
     (let s = print banner s in
      case rendered of
        Inl e \<Rightarrow> (Some e, s)
      | Inr img \<Rightarrow>
          (case raises k of
             Some e \<Rightarrow> (Some e, s)
           | None \<Rightarrow>
               let a = length (heap s);
                   s = s\<lparr>heap := heap s @ [img]\<rparr>;
                   c = with_effects (with_duration (ImageClip a) duration) effects
               in (None, s\<lparr>clips := clips s @ [c]\<rparr>)))"

definition concatenate_step :: "(nat \<Rightarrow> exc option) \<Rightarrow> step" where
  "concatenate_step raises s =
     (let s = print [128260, 32, 21512, 24182, 35270, 39057, 29255, 27573, 46, 46, 46] s in
      case raises 7 of
        Some e \<Rightarrow> (Some e, s)
      | None \<Rightarrow>
          (case concatenate_videoclips (clips s) of
             Inl e \<Rightarrow> (Some e, s)
           | Inr final \<Rightarrow> (None, s\<lparr>final_clip := Some final\<rparr>)))"

definition output_path :: ustr where
  "output_path = path_join OUTPUT_DIR (py_str ''synapse-ai-demo.mp4'')"

definition write_step :: "(nat \<Rightarrow> exc option) \<Rightarrow> step" where
  "write_step raises s =
     (let s = print ([128190, 32, 20445, 23384, 35270, 39057, 21040, 58, 32] @ output_path) s in
      case raises 8 of
        Some e \<Rightarrow> (Some e, s)
      | None \<Rightarrow>
          (case final_clip s of
             None \<Rightarrow> (Some TypeError, s)
           | Some final \<Rightarrow>
               (None, s\<lparr>files := (output_path, write_videofile final FPS (py_str ''libx264'') False)
                                    # files s\<rparr>)))"

definition summary_step :: step where
  "summary_step s =
     (case final_clip s of
        None \<Rightarrow> (Some TypeError, s)
      | Some final \<Rightarrow>
          (None,
           print ([128208, 32, 20998, 36776, 29575, 58, 32] @ decimal_digits (nat (fst RESOLUTION)) @ [120]
                    @ decimal_digits (nat (snd RESOLUTION)))
          (print ([9201, 65039, 32, 35270, 39057, 26102, 38271, 58, 32] @ format_1f (tl_duration final) @ [32, 31186])
          (print ([128193, 32, 25991, 20214, 20301, 32622, 58, 32] @ output_path)
          (print [9989, 32, 35270, 39057, 29983, 25104, 23436, 25104, 65281] s)))))"

definition close_step :: "(nat \<Rightarrow> exc option) \<Rightarrow> step" where
  \<comment> \<open>\<open>final_clip.close()\<close> and \<open>clip.close()\<close> for every clip\<close>
  "close_step raises s = (raises 9, s)"

definition generate_video_steps :: "(nat \<Rightarrow> exc option) \<Rightarrow> env \<Rightarrow> step list" where
  "generate_video_steps raises E =
     [\<lambda>s. (None, print [127916, 32, 24320, 22987, 29983, 25104, 32, 83, 121, 110, 97, 112,
                     115, 101, 32, 65, 73, 32, 28436, 31034, 35270, 39057, 46, 46, 46] (s\<lparr>clips := []\<rparr>)),
      scene raises 1 [9203, 32, 22330, 26223, 32, 49, 47, 54, 58, 32, 24320, 22330, 32, 72, 111, 111, 107, 46, 46, 46]
        (create_text_image E
           [20320, 30340, 32, 65, 73, 32, 21161, 25163, 22826, 28903, 38065, 65311]
           RESOLUTION 80 (COLORS Text) (COLORS Bg_dark)
           (Some [27599, 20010, 26376, 20960, 30334, 20992, 30340, 32, 65, 80, 73, 32, 36134, 21333]))
        3 [FadeIn (1 / 2), FadeOut (1 / 2)],
      scene raises 2 [9203, 32, 22330, 26223, 32, 50, 47, 54, 58, 32, 76, 111, 103, 111, 23637, 31034, 46, 46, 46]
        (create_logo_scene E) 5 [FadeIn (1 / 2), FadeOut (1 / 2)],
      scene raises 3 [9203, 32, 22330, 26223, 32, 51, 47, 54, 58, 32, 23433, 35013, 28436, 31034, 46, 46, 46]
        (create_terminal_scene E) 6 [FadeIn (1 / 2), FadeOut (1 / 2)],
      scene raises 4 [9203, 32, 22330, 26223, 32, 52, 47, 54, 58, 32, 32842, 22825, 28436, 31034, 46, 46, 46]
        (create_chat_demo_scene E) 8 [FadeIn (1 / 2), FadeOut (1 / 2)],
      scene raises 5 [9203, 32, 22330, 26223, 32, 53, 47, 54, 58, 32, 84, 111, 107, 101, 110, 23545, 27604, 46, 46, 46]
        (create_comparison_chart E) 6 [FadeIn (1 / 2), FadeOut (1 / 2)],
      scene raises 6 [9203, 32, 22330, 26223, 32, 54, 47, 54, 58, 32, 32467, 23614, 21495, 21484, 46, 46, 46]
        (create_github_end_scene E) 5 [FadeIn (1 / 2), FadeOut (3 / 2)],
      concatenate_step raises,
      write_step raises,
      summary_step,
      close_step raises]"

definition generate_video :: "(nat \<Rightarrow> exc option) \<Rightarrow> env \<Rightarrow> step" where
  "generate_video raises E = run (generate_video_steps raises E)"

text \<open>
  The entry point. What \<open>str(e)\<close> and the printed traceback of an exception look like
  is left to the interpreter. The script ends with status 0 when it reaches its end, with
  status 1 through \<open>sys.exit(1)\<close>; an exception that the handler does not catch leaves
  the script, and the interpreter deals with it.
\<close>

record runtime =
  exc_str :: "exc \<Rightarrow> ustr"
  format_exc :: "exc \<Rightarrow> ustr"

datatype outcome = Exit int | Uncaught exc

definition dunder_main :: "runtime \<Rightarrow> (nat \<Rightarrow> exc option) \<Rightarrow> env \<Rightarrow> state \<Rightarrow> outcome \<times> state" where
  "dunder_main rt raises E s =
     (case generate_video raises E s of
        (None, s') \<Rightarrow> (Exit 0, s')
      | (Some e, s') \<Rightarrow>
          if is_Exception e then
            (let s' = print ([10060, 32, 38169, 35823, 58, 32] @ exc_str rt e) s';
                 s' = s'\<lparr>stderr := stderr s' @ [format_exc rt e]\<rparr>
             in (Exit 1, s'))
          else (Uncaught e, s'))"

(*LEMMAS*)

section \<open>Properties of the colour utility\<close>

lemma digit_value_lt16: "digit_value c < 16 \<longleftrightarrow> is_hex_digit c"
  by (auto simp: digit_value_def is_hex_digit_def)

lemma FromString_pair:
  assumes "is_hex_digit a" "is_hex_digit b"
  shows "PyLong_FromString [a, b] = Some (int (16 * digit_value a + digit_value b))"
proof -
  have a: "\<not> Py_ISSPACE a" "a \<noteq> 43" "a \<noteq> 45" "a \<noteq> 95" "digit_value a < 16"
    using assms(1) by (auto simp: is_hex_digit_def Py_ISSPACE_def digit_value_lt16)
  have b: "b \<noteq> 120" "b \<noteq> 88" "b \<noteq> 95" "digit_value b < 16"
    using assms(2) by (auto simp: is_hex_digit_def digit_value_lt16)
  show ?thesis
    using a b by (simp add: PyLong_FromString_def skip_sign_def skip_prefix_def)
qed

lemma py_int16_pair:
  assumes "is_hex_digit a" "is_hex_digit b"
  shows "py_int16 [a, b] = Some (int (16 * digit_value a + digit_value b))"
proof -
  have "a < 128" "b < 128" using assms by (auto simp: is_hex_digit_def)
  then show ?thesis
    by (simp add: py_int16_def transform_decimal_and_space_def FromString_pair [OF assms])
qed

lemma list6:
  assumes "length s = 6"
  obtains a b c d e f where "s = [a, b, c, d, e, f]"
  using assms by (auto simp: eval_nat_numeral length_Suc_conv)

lemma lstrip_hex: "is_hex_digit a \<Longrightarrow> lstrip 35 (a # s) = a # s"
  by (auto simp: lstrip_def is_hex_digit_def)

lemma lstrip_marker: "lstrip 35 (35 # s) = lstrip 35 s"
  by (simp add: lstrip_def)

lemma hex_to_rgb_six:
  assumes "is_hex_digit a" "is_hex_digit b" "is_hex_digit c"
          "is_hex_digit d" "is_hex_digit e" "is_hex_digit f"
  shows "hex_to_rgb ([a, b, c, d, e, f] @ t) =
           Inr (int (16 * digit_value a + digit_value b),
                int (16 * digit_value c + digit_value d),
                int (16 * digit_value e + digit_value f))"
  using assms
  by (simp add: hex_to_rgb_def lstrip_hex slice_def py_int16_pair del: of_nat_add of_nat_mult)

lemma byte_channel: "is_hex_digit a \<Longrightarrow> is_hex_digit b \<Longrightarrow>
    channel (int (16 * digit_value a + digit_value b))"
  by (auto simp: channel_def is_hex_digit_def digit_value_def)

lemma upper_is_hex: "is_upper_hex c \<Longrightarrow> is_hex_digit c"
  by (auto simp: is_upper_hex_def is_hex_digit_def)

lemma lower_is_hex: "is_lower_hex c \<Longrightarrow> is_hex_digit c"
  by (auto simp: is_lower_hex_def is_hex_digit_def)

lemma hex_digit_of_upper: "is_upper_hex c \<Longrightarrow> hex_digit_of 65 (digit_value c) = c"
  by (auto simp: is_upper_hex_def hex_digit_of_def digit_value_def)

lemma hex_digit_of_lower: "is_lower_hex c \<Longrightarrow> hex_digit_of 97 (digit_value c) = c"
  by (auto simp: is_lower_hex_def hex_digit_of_def digit_value_def)

lemma upper_hex_digit_of: "v < 16 \<Longrightarrow> is_upper_hex (hex_digit_of 65 v)"
  by (auto simp: is_upper_hex_def hex_digit_of_def)

lemma lower_hex_digit_of: "v < 16 \<Longrightarrow> is_lower_hex (hex_digit_of 97 v)"
  by (auto simp: is_lower_hex_def hex_digit_of_def)

lemma digit_value_hex_digit_of:
  "v < 16 \<Longrightarrow> lb = 65 \<or> lb = 97 \<Longrightarrow> digit_value (hex_digit_of lb v) = v"
  by (auto simp: hex_digit_of_def digit_value_def)

lemma byte_to_hex_decode:
  assumes "is_hex_digit a" "is_hex_digit b"
    and "hex_digit_of lb (digit_value a) = a" "hex_digit_of lb (digit_value b) = b"
  shows "byte_to_hex lb (int (16 * digit_value a + digit_value b)) = [a, b]"
proof -
  have "digit_value a < 16" "digit_value b < 16"
    using assms(1,2) by (simp_all add: digit_value_lt16)
  then have "(16 * digit_value a + digit_value b) div 16 = digit_value a"
            "(16 * digit_value a + digit_value b) mod 16 = digit_value b"
    by simp_all
  then show ?thesis
    using assms(3,4) unfolding byte_to_hex_def nat_int by simp
qed

lemma hex_to_rgb_encode:
  assumes lb: "lb = 65 \<or> lb = 97" and t: "(r, g, b) \<in> rgb_triples"
  shows "hex_to_rgb (rgb_to_hex lb (Inr (r, g, b))) = Inr (r, g, b)"
proof -
  have pair: "py_int16 (byte_to_hex lb v) = Some v" if "channel v" for v
  proof -
    from that have v: "nat v div 16 < 16" "nat v mod 16 < 16" "0 \<le> v"
      by (auto simp: channel_def)
    have h: "is_hex_digit (hex_digit_of lb (nat v div 16))"
            "is_hex_digit (hex_digit_of lb (nat v mod 16))"
      using lb v upper_hex_digit_of lower_hex_digit_of upper_is_hex lower_is_hex by blast+
    have "int (16 * (nat v div 16) + nat v mod 16) = v"
      using v(3) by simp
    then show ?thesis
      unfolding byte_to_hex_def
      by (simp only: py_int16_pair [OF h] digit_value_hex_digit_of [OF v(1) lb]
            digit_value_hex_digit_of [OF v(2) lb])
  qed
  have first: "lstrip 35 (byte_to_hex lb r @ s) = byte_to_hex lb r @ s" for s
    using lb by (auto simp: byte_to_hex_def lstrip_def hex_digit_of_def)
  from t have c: "channel r" "channel g" "channel b"
    by (simp_all add: rgb_triples_def)
  have sl: "slice (byte_to_hex lb r @ byte_to_hex lb g @ byte_to_hex lb b) 0 2 = byte_to_hex lb r"
           "slice (byte_to_hex lb r @ byte_to_hex lb g @ byte_to_hex lb b) 2 4 = byte_to_hex lb g"
           "slice (byte_to_hex lb r @ byte_to_hex lb g @ byte_to_hex lb b) 4 6 = byte_to_hex lb b"
    by (simp_all add: slice_def byte_to_hex_def)
  show ?thesis
    by (simp add: hex_to_rgb_def first sl pair c)
qed

lemma hex_to_rgb_bij:
  assumes lb: "lb = 65 \<or> lb = 97"
    and dom: "\<And>c. P c \<Longrightarrow> is_hex_digit c \<and> hex_digit_of lb (digit_value c) = c"
    and rng: "\<And>v. v < 16 \<Longrightarrow> P (hex_digit_of lb v)"
  shows "bij_betw hex_to_rgb {s. length s = 6 \<and> list_all P s} (Inr ` rgb_triples)"
proof (rule bij_betw_byWitness [where f' = "rgb_to_hex lb"])
  show "\<forall>s \<in> {s. length s = 6 \<and> list_all P s}. rgb_to_hex lb (hex_to_rgb s) = s"
  proof
    fix s assume "s \<in> {s. length s = 6 \<and> list_all P s}"
    then have len: "length s = 6" and all: "list_all P s" by simp_all
    from len obtain a b c d e f where s: "s = [a, b, c, d, e, f]" by (rule list6)
    from all dom have h: "is_hex_digit a" "is_hex_digit b" "is_hex_digit c"
        "is_hex_digit d" "is_hex_digit e" "is_hex_digit f"
      and k: "hex_digit_of lb (digit_value a) = a" "hex_digit_of lb (digit_value b) = b"
        "hex_digit_of lb (digit_value c) = c" "hex_digit_of lb (digit_value d) = d"
        "hex_digit_of lb (digit_value e) = e" "hex_digit_of lb (digit_value f) = f"
      unfolding s by simp_all
    have "hex_to_rgb s = Inr (int (16 * digit_value a + digit_value b),
                int (16 * digit_value c + digit_value d),
                int (16 * digit_value e + digit_value f))"
      using hex_to_rgb_six [OF h, of "[]"] unfolding s by simp
    then show "rgb_to_hex lb (hex_to_rgb s) = s"
      unfolding s
      by (simp only: rgb_to_hex.simps byte_to_hex_decode h k append.simps)
  qed
next
  show "\<forall>t \<in> Inr ` rgb_triples. hex_to_rgb (rgb_to_hex lb t) = t"
    using hex_to_rgb_encode [OF lb] by auto
next
  show "hex_to_rgb ` {s. length s = 6 \<and> list_all P s} \<subseteq> Inr ` rgb_triples"
  proof
    fix t assume "t \<in> hex_to_rgb ` {s. length s = 6 \<and> list_all P s}"
    then obtain s where len: "length s = 6" and all: "list_all P s" and t: "t = hex_to_rgb s"
      by auto
    from len obtain a b c d e f where s: "s = [a, b, c, d, e, f]" by (rule list6)
    from all dom have h: "is_hex_digit a" "is_hex_digit b" "is_hex_digit c"
        "is_hex_digit d" "is_hex_digit e" "is_hex_digit f"
      unfolding s by simp_all
    have "hex_to_rgb s = Inr (int (16 * digit_value a + digit_value b),
                int (16 * digit_value c + digit_value d),
                int (16 * digit_value e + digit_value f))"
      using hex_to_rgb_six [OF h, of "[]"] unfolding s by simp
    then show "t \<in> Inr ` rgb_triples"
      unfolding t rgb_triples_def using byte_channel h by simp
  qed
next
  show "rgb_to_hex lb ` Inr ` rgb_triples \<subseteq> {s. length s = 6 \<and> list_all P s}"
  proof
    fix s assume "s \<in> rgb_to_hex lb ` Inr ` rgb_triples"
    then obtain r g b where c: "channel r" "channel g" "channel b"
      and s: "s = rgb_to_hex lb (Inr (r, g, b))"
      by (auto simp: rgb_triples_def)
    have "nat v div 16 < 16 \<and> nat v mod 16 < 16" if "channel v" for v
      using that by (auto simp: channel_def)
    with c rng show "s \<in> {s. length s = 6 \<and> list_all P s}"
      unfolding s by (simp add: byte_to_hex_def)
  qed
qed

lemma FromString_nil: "PyLong_FromString [] = None"
  by (simp add: PyLong_FromString_def skip_sign_def skip_prefix_def)

lemma FromString_one: "PyLong_FromString [a] = None \<longleftrightarrow> \<not> is_hex_digit a"
  by (auto simp: PyLong_FromString_def skip_sign_def skip_prefix_def digit_value_lt16
        is_hex_digit_def Py_ISSPACE_def split: if_splits)

lemma FromString_two:
  "PyLong_FromString [a, b] = None \<longleftrightarrow>
     \<not> ((is_hex_digit a \<and> is_hex_digit b) \<or> (Py_ISSPACE a \<and> is_hex_digit b) \<or>
     (is_hex_digit a \<and> Py_ISSPACE b) \<or> ((a = 43 \<or> a = 45) \<and> is_hex_digit b))"
  by (auto simp: PyLong_FromString_def skip_sign_def skip_prefix_def digit_value_lt16
        is_hex_digit_def Py_ISSPACE_def split: if_splits)

lemma transform_char_127: "transform_char 127 = 63"
  by (simp add: transform_char_def unicode_isspace_def unicode_todecimal_def decimal_starts_def)

lemma transform_char_ascii:
  assumes "c < 128"
  shows "is_hex_digit (transform_char c) = is_hex_digit c"
    and "Py_ISSPACE (transform_char c) = Py_ISSPACE c"
    and "transform_char c = 43 \<longleftrightarrow> c = 43"
    and "transform_char c = 45 \<longleftrightarrow> c = 45"
proof -
  consider "c < 127" | "c = 127" using assms by linarith
  then have "(is_hex_digit (transform_char c) = is_hex_digit c) \<and>
    (Py_ISSPACE (transform_char c) = Py_ISSPACE c) \<and>
    (transform_char c = 43 \<longleftrightarrow> c = 43) \<and> (transform_char c = 45 \<longleftrightarrow> c = 45)"
  proof cases
    case 1
    then show ?thesis by (simp add: transform_char_def)
  next
    case 2
    then show ?thesis
      by (simp add: transform_char_127 is_hex_digit_def Py_ISSPACE_def)
  qed
  then show "is_hex_digit (transform_char c) = is_hex_digit c"
    and "Py_ISSPACE (transform_char c) = Py_ISSPACE c"
    and "transform_char c = 43 \<longleftrightarrow> c = 43"
    and "transform_char c = 45 \<longleftrightarrow> c = 45"
    by simp_all
qed

lemma py_int16_literal2:
  assumes "length x \<le> 2"
  shows "py_int16 x = None \<longleftrightarrow> \<not> hex_literal2 x"
proof -
  consider "x = []" | a where "x = [a]" | a b where "x = [a, b]"
    using assms by (cases x; cases "tl x"; cases "tl (tl x)") auto
  then show ?thesis
  proof cases
    case 1
    then show ?thesis
      by (simp add: py_int16_def transform_decimal_and_space_def FromString_nil hex_literal2_def)
  next
    case 2
    then show ?thesis
      by (simp add: py_int16_def transform_decimal_and_space_def FromString_one hex_literal2_def
            transform_char_ascii)
  next
    case 3
    then show ?thesis
      by (simp add: py_int16_def transform_decimal_and_space_def FromString_two hex_literal2_def
            transform_char_ascii)
  qed
qed

lemma length_slice2: "length (slice s i (i + 2)) \<le> 2"
  by (simp add: slice_def)

lemma hex_to_rgb_Inl_iff:
  "hex_to_rgb s = Inl e \<longleftrightarrow>
     e = ValueError \<and>
     (py_int16 (slice (lstrip 35 s) 0 2) = None \<or> py_int16 (slice (lstrip 35 s) 2 4) = None \<or>
      py_int16 (slice (lstrip 35 s) 4 6) = None)"
  by (auto simp: hex_to_rgb_def Let_def split: option.splits)

lemma lstrip_replicate: "lstrip 35 (replicate k 35 @ s) = lstrip 35 s"
  by (induction k) (simp_all add: lstrip_def)

lemma hex_to_rgb_lstrip: "hex_to_rgb (replicate k 35 @ s) = hex_to_rgb s"
  by (simp add: hex_to_rgb_def lstrip_replicate)

lemma hex_to_rgb_valid6:
  assumes "valid_hex6 d"
  shows "\<exists>r g b. hex_to_rgb (d @ t) = Inr (r, g, b) \<and> hex_to_rgb d = Inr (r, g, b) \<and>
           channel r \<and> channel g \<and> channel b"
proof -
  from assms have len: "length d = 6" and all: "list_all is_hex_digit d"
    by (simp_all add: valid_hex6_def)
  from len obtain a b c d' e f where d: "d = [a, b, c, d', e, f]" by (rule list6)
  from all have h: "is_hex_digit a" "is_hex_digit b" "is_hex_digit c"
        "is_hex_digit d'" "is_hex_digit e" "is_hex_digit f"
    unfolding d by simp_all
  show ?thesis
    using hex_to_rgb_six [OF h, of t] hex_to_rgb_six [OF h, of "[]"] byte_channel h
    unfolding d by simp
qed

text \<open>
  Claim C6. Every valid colour code of six hexadecimal digits, with or without the
  leading \<open>#\<close>, is turned into a triple of integers that each lie in \<open>[0, 255]\<close>.
  On the codes written with upper-case letters only, \<open>hex_to_rgb\<close> is a bijection onto
  the triples of channels, and so it is on the codes written with lower-case letters only.
  (The two canonical spellings are taken one at a time: \<open>ABCDEF\<close> and \<open>abcdef\<close>
  are the same colour.)
\<close>
theorem hex_to_rgb_valid_codes:
  "(valid_hex6 s \<longrightarrow>
      (\<exists>r g b. hex_to_rgb s = Inr (r, g, b) \<and> hex_to_rgb (35 # s) = Inr (r, g, b) \<and>
         channel r \<and> channel g \<and> channel b)) \<and>
   bij_betw hex_to_rgb upper_codes (Inr ` rgb_triples) \<and>
   bij_betw hex_to_rgb lower_codes (Inr ` rgb_triples)"
proof (intro conjI impI)
  assume v: "valid_hex6 s"
  have "hex_to_rgb (35 # s) = hex_to_rgb s"
    using hex_to_rgb_lstrip [of 1 s] by simp
  with hex_to_rgb_valid6 [OF v, of "[]"]
  show "\<exists>r g b. hex_to_rgb s = Inr (r, g, b) \<and> hex_to_rgb (35 # s) = Inr (r, g, b) \<and>
         channel r \<and> channel g \<and> channel b"
    by auto
next
  show "bij_betw hex_to_rgb upper_codes (Inr ` rgb_triples)"
    unfolding upper_codes_def
    by (rule hex_to_rgb_bij [where lb = 65])
       (simp_all add: upper_is_hex hex_digit_of_upper upper_hex_digit_of)
next
  show "bij_betw hex_to_rgb lower_codes (Inr ` rgb_triples)"
    unfolding lower_codes_def
    by (rule hex_to_rgb_bij [where lb = 97])
       (simp_all add: lower_is_hex hex_digit_of_lower lower_hex_digit_of)
qed

lemma valid_3B82F6: "valid_hex6 (py_str ''3B82F6'')"
  by (simp add: valid_hex6_def py_str_def is_hex_digit_def)

theorem hex_to_rgb_valid_codes_witness:
  "valid_hex6 (py_str ''3B82F6'') \<and> hex_to_rgb (py_str ''#3B82F6'') = Inr (59, 130, 246) \<and>
   channel 59 \<and> channel 130 \<and> channel 246"
proof -
  from hex_to_rgb_valid_codes [of "py_str ''3B82F6''"] valid_3B82F6
  obtain r g b where a: "hex_to_rgb (py_str ''3B82F6'') = Inr (r, g, b)"
    and b: "hex_to_rgb (35 # py_str ''3B82F6'') = Inr (r, g, b)"
    and c: "channel r" "channel g" "channel b"
    by blast
  have "hex_to_rgb (py_str ''3B82F6'') = Inr (59, 130, 246)"
    by code_simp
  with a have "r = 59" "g = 130" "b = 246" by simp_all
  moreover have "35 # py_str ''3B82F6'' = py_str ''#3B82F6''"
    by (simp add: py_str_def)
  ultimately show ?thesis using b c valid_3B82F6 by simp
qed

lemma py_int16_slice:
  "j \<le> i + 2 \<Longrightarrow> py_int16 (slice h i j) = None \<longleftrightarrow> \<not> hex_literal2 (slice h i j)"
  by (rule py_int16_literal2) (simp add: slice_def)

lemma set_take6:
  "set (take 6 h) = set (slice h 0 2) \<union> set (slice h 2 4) \<union> set (slice h 4 6)"
proof -
  have "take 6 h = take 2 h @ take 2 (drop 2 h) @ take 2 (drop 4 h)"
    using take_add [of 2 4 h] take_add [of 2 2 "drop 2 h"] by simp
  then show ?thesis by (simp add: slice_def Un_assoc)
qed

lemma literal2_chars:
  assumes "hex_literal2 x" "c \<in> set x" "c < 127"
  shows "is_hex_digit c \<or> c = 43 \<or> c = 45 \<or> Py_ISSPACE c"
proof -
  have tc: "transform_char c = c" using assms(3) by (simp add: transform_char_def)
  consider "x = []" | a where "x = [a]" | a b where "x = [a, b]"
    | a b d t where "x = a # b # d # t"
    by (cases x; cases "tl x"; cases "tl (tl x)") auto
  then show ?thesis
    using assms(1,2) tc by cases (auto simp: hex_literal2_def)
qed

text \<open>
  Claim C7, as amended. \<open>hex_to_rgb\<close> fails only on malformed codes, and only with
  \<open>ValueError\<close>, which it does not catch. It does fail on every code that, once the
  leading \<open>#\<close> characters are removed, has fewer than five characters, or has among its
  first six characters an ASCII character that is neither a hexadecimal digit, a sign nor
  white space. Other malformed codes are not rejected: nothing is checked beyond the
  parsing of the three two-character slices.
\<close>
theorem hex_to_rgb_malformed:
  "(hex_to_rgb s = Inl e \<longrightarrow> e = ValueError \<and> malformed s) \<and>
   (length (lstrip 35 s) < 5 \<or>
    (\<exists>c \<in> set (take 6 (lstrip 35 s)).
        c < 127 \<and> \<not> is_hex_digit c \<and> c \<noteq> 43 \<and> c \<noteq> 45 \<and> \<not> Py_ISSPACE c)
    \<longrightarrow> hex_to_rgb s = Inl ValueError)"
proof -
  have 1: "e = ValueError \<and> malformed s" if err: "hex_to_rgb s = Inl e"
  proof -
    from err have "e = ValueError" by (simp add: hex_to_rgb_Inl_iff)
    moreover have "malformed s"
    proof (rule ccontr)
      assume "\<not> malformed s"
      then have v: "valid_hex6 (strip_marker s)" by (simp add: malformed_def)
      have "hex_to_rgb s = hex_to_rgb (strip_marker s)"
        using hex_to_rgb_lstrip [of 1 "tl s"]
        by (cases s) (auto simp: strip_marker_def)
      with hex_to_rgb_valid6 [OF v, of "[]"] err show False by auto
    qed
    ultimately show ?thesis by simp
  qed
  have 2: "hex_to_rgb s = Inl ValueError"
    if bad: "length (lstrip 35 s) < 5 \<or>
    (\<exists>c \<in> set (take 6 (lstrip 35 s)).
        c < 127 \<and> \<not> is_hex_digit c \<and> c \<noteq> 43 \<and> c \<noteq> 45 \<and> \<not> Py_ISSPACE c)"
  proof -
  let ?h = "lstrip 35 s"
  have "py_int16 (slice ?h 0 2) = None \<or> py_int16 (slice ?h 2 4) = None \<or>
        py_int16 (slice ?h 4 6) = None"
    using bad
  proof
    assume "length ?h < 5"
    then have "slice ?h 4 6 = []" by (simp add: slice_def)
    then have "py_int16 (slice ?h 4 6) = None"
      using py_int16_literal2 [of "[]"] by (simp add: hex_literal2_def)
    then show ?thesis by simp
  next
    assume "\<exists>c \<in> set (take 6 ?h).
        c < 127 \<and> \<not> is_hex_digit c \<and> c \<noteq> 43 \<and> c \<noteq> 45 \<and> \<not> Py_ISSPACE c"
    then obtain c where c: "c \<in> set (take 6 ?h)" "c < 127"
      "\<not> (is_hex_digit c \<or> c = 43 \<or> c = 45 \<or> Py_ISSPACE c)" by blast
    from c(1) consider "c \<in> set (slice ?h 0 2)" | "c \<in> set (slice ?h 2 4)"
      | "c \<in> set (slice ?h 4 6)"
      unfolding set_take6 by blast
    then show ?thesis
    proof cases
      case 1
      with literal2_chars c have "\<not> hex_literal2 (slice ?h 0 2)" by blast
      then show ?thesis by (simp add: py_int16_slice)
    next
      case 2
      with literal2_chars c have "\<not> hex_literal2 (slice ?h 2 4)" by blast
      then show ?thesis by (simp add: py_int16_slice)
    next
      case 3
      with literal2_chars c have "\<not> hex_literal2 (slice ?h 4 6)" by blast
      then show ?thesis by (simp add: py_int16_slice)
    qed
  qed
    then show "hex_to_rgb s = Inl ValueError" by (simp add: hex_to_rgb_Inl_iff)
  qed
  from 1 2 show ?thesis by blast
qed

theorem hex_to_rgb_malformed_witness:
  "length (lstrip 35 (py_str ''#FFF'')) < 5 \<and> hex_to_rgb (py_str ''#FFF'') = Inl ValueError \<and>
   malformed (py_str ''#FFF'')"
proof -
  have l: "length (lstrip 35 (py_str ''#FFF'')) < 5"
    by (simp add: py_str_def lstrip_def)
  with hex_to_rgb_malformed [of "py_str ''#FFF''" ValueError]
  have "hex_to_rgb (py_str ''#FFF'') = Inl ValueError" by blast
  with hex_to_rgb_malformed [of "py_str ''#FFF''" ValueError] l show ?thesis by blast
qed

text \<open>
  The claim as it was stated fails: eight characters are not a valid code, and the two
  characters after the sixth digit are never looked at.
\<close>

theorem hex_to_rgb_malformed_counterexample:
  "malformed (py_str ''FFFFFFzz'') \<and> hex_to_rgb (py_str ''FFFFFFzz'') = Inr (255, 255, 255)"
  by (simp add: malformed_def strip_marker_def valid_hex6_def py_str_def hex_to_rgb_six [of 70 70 70 70 70 70 "[122, 122]", simplified] is_hex_digit_def digit_value_def)

text \<open>
  Claim C10, as amended. \<open>hex_to_rgb\<close> raises, and then raises \<open>ValueError\<close>, exactly
  when one of the slices at positions 0-1, 2-3, 4-5 of the code without its leading
  \<open>#\<close> characters is rejected by \<open>int(s, 16)\<close>. The slices it accepts are those
  \<open>hex_literal2\<close> spells out: one or two hexadecimal digits, but also a single digit with
  a sign before it or with white space before or after it. Any number of leading \<open>#\<close>
  characters is dropped, and whatever follows six hexadecimal digits is ignored.
\<close>
theorem hex_to_rgb_raises_iff:
  "(hex_to_rgb s = Inl e \<longleftrightarrow>
      e = ValueError \<and> (\<exists>i \<in> {0, 2, 4}. \<not> hex_literal2 (slice (lstrip 35 s) i (i + 2)))) \<and>
   (\<forall>i \<in> {0, 2, 4}. py_int16 (slice (lstrip 35 s) i (i + 2)) = None \<longleftrightarrow>
                       \<not> hex_literal2 (slice (lstrip 35 s) i (i + 2))) \<and>
   hex_to_rgb (replicate k 35 @ s) = hex_to_rgb s \<and>
   (valid_hex6 d \<longrightarrow>
      (\<exists>r g b. hex_to_rgb (replicate k 35 @ d @ t) = Inr (r, g, b) \<and> hex_to_rgb d = Inr (r, g, b)))"
proof -
  let ?h = "lstrip 35 s"
  have l0: "py_int16 (slice ?h 0 2) = None \<longleftrightarrow> \<not> hex_literal2 (slice ?h 0 2)"
    by (rule py_int16_slice) simp
  have l2: "py_int16 (slice ?h 2 4) = None \<longleftrightarrow> \<not> hex_literal2 (slice ?h 2 4)"
    by (rule py_int16_slice) simp
  have l4: "py_int16 (slice ?h 4 6) = None \<longleftrightarrow> \<not> hex_literal2 (slice ?h 4 6)"
    by (rule py_int16_slice) simp
  have ar: "0 + 2 = (2::nat)" "2 + 2 = (4::nat)" "4 + 2 = (6::nat)" by simp_all
  have "hex_to_rgb s = Inl e \<longleftrightarrow>
      e = ValueError \<and> (\<not> hex_literal2 (slice ?h 0 (0 + 2)) \<or> \<not> hex_literal2 (slice ?h 2 (2 + 2)) \<or>
         \<not> hex_literal2 (slice ?h 4 (4 + 2)))"
    by (simp only: hex_to_rgb_Inl_iff l0 l2 l4 ar)
  then have "hex_to_rgb s = Inl e \<longleftrightarrow>
      e = ValueError \<and> (\<exists>i \<in> {0, 2, 4}. \<not> hex_literal2 (slice (lstrip 35 s) i (i + 2)))"
    by blast
  moreover have "\<forall>i \<in> {0, 2, 4}. py_int16 (slice (lstrip 35 s) i (i + 2)) = None \<longleftrightarrow>
                       \<not> hex_literal2 (slice (lstrip 35 s) i (i + 2))"
    by (simp add: py_int16_slice)
  moreover have "valid_hex6 d \<longrightarrow>
      (\<exists>r g b. hex_to_rgb (replicate k 35 @ d @ t) = Inr (r, g, b) \<and> hex_to_rgb d = Inr (r, g, b))"
    using hex_to_rgb_valid6 [of d t] by (auto simp: hex_to_rgb_lstrip)
  ultimately show ?thesis by (simp only: hex_to_rgb_lstrip simp_thms)
qed

theorem hex_to_rgb_raises_iff_witness:
  "valid_hex6 (py_str ''10B981'') \<and>
   hex_to_rgb (py_str ''##10B981xyz'') = Inr (16, 185, 129) \<and>
   (\<exists>i \<in> {0, 2, 4}. \<not> hex_literal2 (slice (lstrip 35 (py_str ''#10B9'')) i (i + 2))) \<and>
   hex_to_rgb (py_str ''#10B9'') = Inl ValueError"
proof -
  have v: "valid_hex6 (py_str ''10B981'')"
    by (simp add: valid_hex6_def py_str_def is_hex_digit_def)
  have e: "hex_to_rgb (py_str ''10B981'') = Inr (16, 185, 129)" by code_simp
  have s: "replicate 2 35 @ py_str ''10B981'' @ py_str ''xyz'' = py_str ''##10B981xyz''"
    by (simp add: py_str_def numeral_2_eq_2)
  from hex_to_rgb_raises_iff [of "py_str ''10B981''" ValueError 2 "py_str ''10B981''" "py_str ''xyz''"] v e
  have 1: "hex_to_rgb (py_str ''##10B981xyz'') = Inr (16, 185, 129)"
    unfolding s by auto
  have b: "\<not> hex_literal2 (slice (lstrip 35 (py_str ''#10B9'')) 4 (4 + 2))"
    by (simp add: hex_literal2_def slice_def lstrip_def py_str_def)
  then have 2: "\<exists>i \<in> {0, 2, 4}. \<not> hex_literal2 (slice (lstrip 35 (py_str ''#10B9'')) i (i + 2))"
    by blast
  with hex_to_rgb_raises_iff [of "py_str ''#10B9''" ValueError 0 "[]" "[]"]
  have 3: "hex_to_rgb (py_str ''#10B9'') = Inl ValueError" by blast
  from v 1 2 3 show ?thesis by blast
qed

text \<open>
  The claim as it was stated fails: in \<open>+1+2+3\<close> no slice is made of hexadecimal
  digits, and no error is raised.
\<close>

theorem hex_to_rgb_raises_iff_counterexample:
  "\<not> hex_digits (slice (lstrip 35 (py_str ''+1+2+3'')) 0 2) \<and>
   \<not> hex_digits (slice (lstrip 35 (py_str ''+1+2+3'')) 2 4) \<and>
   \<not> hex_digits (slice (lstrip 35 (py_str ''+1+2+3'')) 4 6) \<and>
   hex_to_rgb (py_str ''+1+2+3'') = Inr (1, 2, 3)"
proof -
  have "hex_to_rgb (py_str ''+1+2+3'') = Inr (1, 2, 3)"
    by code_simp
  then show ?thesis
    by (simp add: hex_digits_def slice_def lstrip_def py_str_def is_hex_digit_def)
qed

section \<open>The chat scene\<close>

lemma and_then_Inr [simp]: "and_then (Inr v) f = f v"
  by (simp add: and_then_def)

lemma and_then_Inl [simp]: "and_then (Inl e) f = Inl e"
  by (simp add: and_then_def)

lemma rgb_Text: "hex_to_rgb (py_str ''#F8FAFC'') = Inr (248, 250, 252)"
  by code_simp

lemma rgb_Primary: "hex_to_rgb (py_str ''#3B82F6'') = Inr (59, 130, 246)"
  by code_simp

lemma rgb_334155: "hex_to_rgb (py_str ''#334155'') = Inr (51, 65, 85)"
  by code_simp

lemma line_loop_returns:
  "\<exists>img'. line_loop font_msg box_x padding line_height lines text_y img = Inr img'"
  by (induction lines arbitrary: text_y img) (simp_all add: rgb_Text)

lemma message_loop_cursor:
  "\<exists>img'. message_loop font_msg msgs y img =
      Inr (img', y + (\<Sum>(role, content) \<leftarrow> msgs. int (length (split 10 content)) * 30 + 15 * 2 + 25))"
proof (induction msgs arbitrary: y img)
  case Nil
  then show ?case by simp
next
  case (Cons m msgs)
  obtain role content where m: "m = (role, content)" by (cases m)
  let ?h = "int (length (split 10 content)) * 30 + 15 * 2"
  let ?bx = "if role = py_str ''user'' then fst RESOLUTION - 700 - 80 else 80"
  obtain fill where fill:
    "hex_to_rgb (if role = py_str ''user'' then COLORS Primary else py_str ''#334155'') = Inr fill"
    by (cases "role = py_str ''user''") (simp_all add: rgb_Primary rgb_334155)
  obtain img1 where img1:
    "line_loop font_msg ?bx 15 30 (split 10 content) (y + 15)
       (draw img (DrawRoundedRectangle (?bx, y, ?bx + 700, y + ?h) 12 (Some fill))) = Inr img1"
    using line_loop_returns by blast
  have eq1: "message_loop font_msg (m # msgs) y img =
             message_loop font_msg msgs (y + (?h + 25)) img1"
    unfolding m by (simp only: message_loop.simps Let_def fill and_then_Inr img1)
  have eq2: "(\<Sum>(role, content) \<leftarrow> m # msgs. int (length (split 10 content)) * 30 + 15 * 2 + 25) =
             (?h + 25) + (\<Sum>(role, content) \<leftarrow> msgs. int (length (split 10 content)) * 30 + 15 * 2 + 25)"
    unfolding m by simp
  from Cons.IH [of "y + (?h + 25)" img1] show ?case
    unfolding eq1 eq2 by (simp only: add.assoc)
qed


lemma line_loop_appends:
  "\<exists>img' ops. line_loop font_msg box_x padding line_height lines text_y img = Inr img' \<and>
      im_ops img' = im_ops img @ ops"
proof (induction lines arbitrary: text_y img)
  case Nil
  then show ?case by simp
next
  case (Cons line lines)
  from Cons [of "text_y + line_height"
      "draw img (DrawText (box_x + padding, text_y) line (248, 250, 252) font_msg)"]
  show ?case by (auto simp: rgb_Text draw_def)
qed

lemma message_loop_append:
  "message_loop font_msg (pre @ post) y img =
     and_then (message_loop font_msg pre y img) (\<lambda>(img1, y1). message_loop font_msg post y1 img1)"
proof (induction pre arbitrary: y img)
  case Nil
  then show ?case by simp
next
  case (Cons m pre)
  obtain role content where m: "m = (role, content)" by (cases m)
  show ?case
    unfolding m
    by (simp add: Let_def Cons and_then_def split: sum.splits)
qed

lemma message_loop_single:
  "\<exists>img' fill ops.
     message_loop font_msg [(role, content)] y img =
       Inr (img', y + (int (length (split 10 content)) * 30 + 15 * 2 + 25)) \<and>
     im_ops img' = im_ops img @
       DrawRoundedRectangle
         (if role = py_str ''user'' then fst RESOLUTION - 700 - 80 else 80, y,
          (if role = py_str ''user'' then fst RESOLUTION - 700 - 80 else 80) + 700,
          y + (int (length (split 10 content)) * 30 + 15 * 2)) 12 (Some fill) # ops"
proof -
  let ?h = "int (length (split 10 content)) * 30 + 15 * 2"
  let ?bx = "if role = py_str ''user'' then fst RESOLUTION - 700 - 80 else 80"
  obtain fill where fill:
    "hex_to_rgb (if role = py_str ''user'' then COLORS Primary else py_str ''#334155'') = Inr fill"
    by (cases "role = py_str ''user''") (simp_all add: rgb_Primary rgb_334155)
  obtain img1 ops where img1:
    "line_loop font_msg ?bx 15 30 (split 10 content) (y + 15)
       (draw img (DrawRoundedRectangle (?bx, y, ?bx + 700, y + ?h) 12 (Some fill))) = Inr img1"
    and ops: "im_ops img1 =
       im_ops (draw img (DrawRoundedRectangle (?bx, y, ?bx + 700, y + ?h) 12 (Some fill))) @ ops"
    using line_loop_appends by blast
  have "message_loop font_msg [(role, content)] y img = Inr (img1, y + (?h + 25))"
    by (simp only: message_loop.simps Let_def fill and_then_Inr img1)
  moreover have "im_ops img1 =
      im_ops img @ DrawRoundedRectangle (?bx, y, ?bx + 700, y + ?h) 12 (Some fill) # ops"
    using ops by (simp add: draw_def)
  ultimately show ?thesis by (simp only: add.assoc) blast
qed


lemma split_newlines: "length (split 10 (replicate k 10)) = Suc k"
  by (induction k) simp_all

text \<open>
  Claim C4. In the chat scene the loop over the messages starts with the cursor at 120.
  After any messages \<open>pre\<close> the cursor is 120 plus, for each of them, its box height
  and the gap of 25, where the box height of a message is its number of lines (the
  pieces of \<open>content.split('\\n')\<close>) times 30 plus twice the padding of 15. The bubble of
  the next message is the rounded rectangle drawn from that cursor down to the cursor
  plus its box height. Any sequence of line counts occurs: \<open>k\<close> newlines give
  \<open>k + 1\<close> lines (lemma \<open>split_newlines\<close>).
\<close>
theorem chat_bubble_cursor:
  "\<exists>img1 img' fill ops.
     message_loop font_msg pre 120 img =
       Inr (img1, 120 + (\<Sum>(role, content) \<leftarrow> pre.
                           int (length (split 10 content)) * 30 + 15 * 2 + 25)) \<and>
     message_loop font_msg (pre @ [(role, content)]) 120 img =
       Inr (img', 120 + (\<Sum>(role, content) \<leftarrow> pre @ [(role, content)].
                           int (length (split 10 content)) * 30 + 15 * 2 + 25)) \<and>
     im_ops img' = im_ops img1 @
       DrawRoundedRectangle
         (if role = py_str ''user'' then fst RESOLUTION - 700 - 80 else 80,
          120 + (\<Sum>(role, content) \<leftarrow> pre.
                   int (length (split 10 content)) * 30 + 15 * 2 + 25),
          (if role = py_str ''user'' then fst RESOLUTION - 700 - 80 else 80) + 700,
          120 + (\<Sum>(role, content) \<leftarrow> pre.
                   int (length (split 10 content)) * 30 + 15 * 2 + 25)
            + (int (length (split 10 content)) * 30 + 15 * 2)) 12 (Some fill) # ops"
proof -
  let ?y1 = "120 + (\<Sum>(role, content) \<leftarrow> pre.
                      int (length (split 10 content)) * 30 + 15 * 2 + 25)"
  obtain img1 where pre: "message_loop font_msg pre 120 img = Inr (img1, ?y1)"
    using message_loop_cursor by blast
  obtain img' fill ops where one:
    "message_loop font_msg [(role, content)] ?y1 img1 =
       Inr (img', ?y1 + (int (length (split 10 content)) * 30 + 15 * 2 + 25))"
    and ops: "im_ops img' = im_ops img1 @
       DrawRoundedRectangle
         (if role = py_str ''user'' then fst RESOLUTION - 700 - 80 else 80, ?y1,
          (if role = py_str ''user'' then fst RESOLUTION - 700 - 80 else 80) + 700,
          ?y1 + (int (length (split 10 content)) * 30 + 15 * 2)) 12 (Some fill) # ops"
    using message_loop_single by blast
  have "message_loop font_msg (pre @ [(role, content)]) 120 img =
          Inr (img', ?y1 + (int (length (split 10 content)) * 30 + 15 * 2 + 25))"
    by (simp only: message_loop_append pre and_then_Inr prod.case one)
  moreover have "(\<Sum>(role, content) \<leftarrow> pre @ [(role, content)].
                    int (length (split 10 content)) * 30 + 15 * 2 + 25) =
     (\<Sum>(role, content) \<leftarrow> pre. int (length (split 10 content)) * 30 + 15 * 2 + 25)
       + (int (length (split 10 content)) * 30 + 15 * 2 + 25)"
    by simp
  ultimately have "message_loop font_msg (pre @ [(role, content)]) 120 img =
       Inr (img', 120 + (\<Sum>(role, content) \<leftarrow> pre @ [(role, content)].
                           int (length (split 10 content)) * 30 + 15 * 2 + 25))"
    by (simp only: add.assoc)
  with pre ops show ?thesis by blast
qed

section \<open>The terminal scene\<close>

lemma py_str_eq_Nil [simp]: "py_str s = [] \<longleftrightarrow> s = []"
  by (simp add: py_str_def)

lemma rgb_literals:
  "hex_to_rgb (py_str ''#6CC644'') = Inr (108, 198, 68)"
  "hex_to_rgb (py_str ''#F8FAFC'') = Inr (248, 250, 252)"
  "hex_to_rgb (py_str ''#10B981'') = Inr (16, 185, 129)"
  "hex_to_rgb (py_str ''#3B82F6'') = Inr (59, 130, 246)"
  "hex_to_rgb (py_str ''#94A3B8'') = Inr (148, 163, 184)"
  "hex_to_rgb (py_str ''#F59E0B'') = Inr (245, 158, 11)"
  "hex_to_rgb (py_str ''#0F172A'') = Inr (15, 23, 42)"
  "hex_to_rgb (py_str ''#1E1E1E'') = Inr (30, 30, 30)"
  "hex_to_rgb (py_str ''#323232'') = Inr (50, 50, 50)"
  "hex_to_rgb (py_str ''#FF5F56'') = Inr (255, 95, 86)"
  "hex_to_rgb (py_str ''#FFBD2E'') = Inr (255, 189, 46)"
  "hex_to_rgb (py_str ''#27C93F'') = Inr (39, 201, 63)"
  "hex_to_rgb (py_str ''#1E293B'') = Inr (30, 41, 59)"
  "hex_to_rgb (py_str ''#334155'') = Inr (51, 65, 85)"
  "hex_to_rgb (py_str ''#EF4444'') = Inr (239, 68, 68)"
  by code_simp+

lemma text_rows_append: "text_rows (a @ b) = text_rows a @ text_rows b"
  by (induction a rule: text_rows.induct) simp_all

lemma command_loop_rows:
  "list_all (\<lambda>(t, c). t = [] \<or> (\<exists>v. hex_to_rgb c = Inr v)) cmds \<Longrightarrow>
   \<exists>img'. command_loop font x cmds y img =
           Inr (img', y + 40 * int (length (filter (\<lambda>(t, c). t \<noteq> []) cmds))) \<and>
         text_rows (im_ops img') =
           text_rows (im_ops img) @
           zip (filter (\<lambda>t. t \<noteq> []) (map fst cmds))
               (map (\<lambda>k. y + 40 * int k) [0 ..< length (filter (\<lambda>(t, c). t \<noteq> []) cmds)])"
proof (induction cmds arbitrary: y img)
  case Nil
  then show ?case by simp
next
  case (Cons cmd cmds)
  obtain t c where cmd: "cmd = (t, c)" by (cases cmd)
  from Cons.prems have rest: "list_all (\<lambda>(t, c). t = [] \<or> (\<exists>v. hex_to_rgb c = Inr v)) cmds"
    by simp
  show ?case
  proof (cases "t = []")
    case True
    with Cons.IH [OF rest, of y img] show ?thesis unfolding cmd by simp
  next
    case False
    with Cons.prems obtain v where v: "hex_to_rgb c = Inr v" unfolding cmd by auto
    let ?n = "length (filter (\<lambda>(t, c). t \<noteq> []) cmds)"
    have shift: "map (\<lambda>k. y + 40 * int k) [0 ..< Suc ?n] =
                 y # map (\<lambda>k. (y + 40) + 40 * int k) [0 ..< ?n]"
      by (simp add: upt_conv_Cons map_Suc_upt [symmetric] del: upt_Suc)
    from Cons.IH [OF rest, of "y + 40" "draw img (DrawText (x, y) t v font)"]
    show ?thesis
      unfolding cmd using False
      by (simp add: v shift draw_def text_rows_append add.assoc del: upt_Suc)
  qed
qed


lemma Image_new_RESOLUTION:
  "Image_new RESOLUTION bg = Inr \<lparr>im_size = (1920, 1080), im_color = bg, im_ops = []\<rparr>"
  by (simp add: Image_new_def RESOLUTION_def)

lemma commands_colours: "list_all (\<lambda>(t, c). t = [] \<or> (\<exists>v. hex_to_rgb c = Inr v)) commands"
  by (simp add: commands_def rgb_literals)

lemma commands_drawn: "length (filter (\<lambda>(t, c). t \<noteq> []) commands) = 12"
  by (simp add: commands_def)

lemma rows_12: "map (\<lambda>k. 80 + 40 * int k) [0 ..< 12] =
    [80, 120, 160, 200, 240, 280, 320, 360, 400, 440, 480, 520]"
  by (simp add: upt_rec)

text \<open>
  Claim C1 says that a blank entry of \<open>commands\<close> is not drawn but still moves the
  cursor down by the line pitch. In \<open>create_terminal_scene\<close> the increment of \<open>y\<close>
  stands under \<open>if text\<close> like the drawing call, so a blank entry changes nothing:
  the twelve entries with text are drawn on the consecutive rows 80, 120, ..., 520. The
  entry at index 3, which follows the first blank entry, is drawn at 160 and not at 200.
\<close>
theorem terminal_scene_rows:
  "\<exists>a. create_terminal_scene E = Inr a \<and>
     text_rows (im_ops (raster a)) =
       zip (filter (\<lambda>t. t \<noteq> []) (map fst commands))
           [80, 120, 160, 200, 240, 280, 320, 360, 400, 440, 480, 520] \<and>
     commands ! 2 = ([], []) \<and>
     fst (commands ! 3) = py_str ''$ '' \<and>
     text_rows (im_ops (raster a)) ! 2 = (py_str ''$ '', 160)"
proof -
  define img0 where "img0 =
    draw (draw (draw (draw \<lparr>im_size = (1920, 1080), im_color = (30, 30, 30), im_ops = []\<rparr>
      (DrawRectangle (0, 0, fst RESOLUTION, 40) (Some (50, 50, 50)) None 1))
      (DrawEllipse (20, 12, 36, 28) (Some (255, 95, 86)) None 1))
      (DrawEllipse (46, 12, 62, 28) (Some (255, 189, 46)) None 1))
      (DrawEllipse (72, 12, 88, 28) (Some (39, 201, 63)) None 1)"
  have rows0: "text_rows (im_ops img0) = []"
    by (simp add: img0_def draw_def)
  from command_loop_rows [OF commands_colours, of "resolve_fonts E mono_font_paths [28, 32] ! 0" 40 80 img0]
  obtain img' where loop:
    "command_loop (resolve_fonts E mono_font_paths [28, 32] ! 0) 40 commands 80 img0 =
       Inr (img', 80 + 40 * int 12)"
    and rows: "text_rows (im_ops img') =
       zip (filter (\<lambda>t. t \<noteq> []) (map fst commands))
           [80, 120, 160, 200, 240, 280, 320, 360, 400, 440, 480, 520]"
    unfolding commands_drawn rows0 rows_12 by auto
  have scene: "create_terminal_scene E = Inr (np_array img')"
    unfolding create_terminal_scene_def
    by (simp add: rgb_literals Image_new_RESOLUTION Let_def img0_def [symmetric] loop)
  have third: "zip (filter (\<lambda>t. t \<noteq> []) (map fst commands))
           [80, 120, 160, 200, 240, 280, 320, 360, 400, 440, 480, 520 :: int] ! 2 = (py_str ''$ '', 160)"
    by (simp add: commands_def)
  have "commands ! 2 = ([], [])" "fst (commands ! 3) = py_str ''$ ''"
    by (simp_all add: commands_def)
  with scene rows third show ?thesis
    by (simp add: np_array_def)
qed

section \<open>The font loop\<close>

lemma length_try_load: "length (fst (try_load E p ss i vars)) = length vars"
  by (induction ss arbitrary: i vars) simp_all

lemma try_load_all:
  "list_all (truetype_loads E p) ss \<Longrightarrow> i + length ss \<le> length vars \<Longrightarrow>
   try_load E p ss i vars =
     (take i vars @ map (\<lambda>s. Some (FreeTypeFont p s)) ss @ drop (i + length ss) vars, True)"
proof (induction ss arbitrary: i vars)
  case Nil
  then show ?case by simp
next
  case (Cons s ss)
  then have i: "i < length vars" by simp
  from Cons.prems have "try_load E p (s # ss) i vars =
      try_load E p ss (Suc i) (vars[i := Some (FreeTypeFont p s)])"
    by simp
  also have "\<dots> = (take (Suc i) (vars[i := Some (FreeTypeFont p s)]) @
       map (\<lambda>s. Some (FreeTypeFont p s)) ss @
       drop (Suc i + length ss) (vars[i := Some (FreeTypeFont p s)]), True)"
    using Cons.prems by (intro Cons.IH) simp_all
  also have "take (Suc i) (vars[i := Some (FreeTypeFont p s)]) =
       take i vars @ [Some (FreeTypeFont p s)]"
    using i by (simp add: take_Suc_conv_app_nth)
  also have "drop (Suc i + length ss) (vars[i := Some (FreeTypeFont p s)]) =
       drop (i + length (s # ss)) vars"
    by simp
  finally show ?case by simp
qed

lemma try_load_success_iff: "snd (try_load E p ss i vars) \<longleftrightarrow> list_all (truetype_loads E p) ss"
  by (induction ss arbitrary: i vars) simp_all

lemma try_load_first_fails:
  "ss \<noteq> [] \<Longrightarrow> \<not> truetype_loads E p (hd ss) \<Longrightarrow> try_load E p ss i vars = (vars, False)"
  by (cases ss) simp_all

lemma font_loop_first_good:
  assumes "\<forall>q \<in> set pre. \<not> (path_exists E q \<and> list_all (truetype_loads E q) sizes)"
    and "path_exists E p" and "list_all (truetype_loads E p) sizes"
    and "length vars = length sizes"
  shows "font_loop E (pre @ p # post) sizes vars = map (\<lambda>s. Some (FreeTypeFont p s)) sizes"
  using assms
proof (induction pre arbitrary: vars)
  case Nil
  then show ?case by (simp add: try_load_all)
next
  case (Cons q pre)
  show ?case
  proof (cases "path_exists E q")
    case False
    with Cons show ?thesis by simp
  next
    case True
    with Cons.prems have "\<not> list_all (truetype_loads E q) sizes" by simp
    then have f: "\<not> snd (try_load E q sizes 0 vars)"
      by (simp add: try_load_success_iff)
    obtain vars' where v: "try_load E q sizes 0 vars = (vars', False)"
      using f by (cases "try_load E q sizes 0 vars") auto
    have "length vars' = length sizes"
      using length_try_load [of E q sizes 0 vars] v Cons.prems by simp
    with Cons.IH [of vars'] Cons.prems True v show ?thesis by simp
  qed
qed

lemma font_loop_none_loads:
  "sizes \<noteq> [] \<Longrightarrow> \<forall>p \<in> set paths. path_exists E p \<longrightarrow> \<not> truetype_loads E p (hd sizes) \<Longrightarrow>
   font_loop E paths sizes vars = vars"
  by (induction paths) (simp_all add: try_load_first_fails)

lemma resolve_fonts_first_good:
  assumes "sizes \<noteq> []"
    and "\<forall>q \<in> set pre. \<not> (path_exists E q \<and> list_all (truetype_loads E q) sizes)"
    and "path_exists E p" and "list_all (truetype_loads E p) sizes"
  shows "resolve_fonts E (pre @ p # post) sizes = map (\<lambda>s. Some (FreeTypeFont p s)) sizes"
proof -
  have "font_loop E (pre @ p # post) sizes (replicate (length sizes) None) =
          map (\<lambda>s. Some (FreeTypeFont p s)) sizes"
    using assms(2-4) by (rule font_loop_first_good) simp
  with assms(1) show ?thesis
    by (cases sizes) (simp_all add: resolve_fonts_def)
qed

lemma resolve_fonts_none_loads:
  assumes "sizes \<noteq> []"
    and "\<forall>p \<in> set paths. path_exists E p \<longrightarrow> \<not> truetype_loads E p (hd sizes)"
  shows "resolve_fonts E paths sizes = replicate (length sizes) (Some DefaultFont)"
proof -
  have "font_loop E paths sizes (replicate (length sizes) None) = replicate (length sizes) None"
    using assms by (rule font_loop_none_loads)
  with assms(1) show ?thesis
    by (cases sizes) (simp_all add: resolve_fonts_def)
qed

lemma resolve_fonts_pillow:
  "filter (\<lambda>p. path_exists pillow_env p \<and> list_all (truetype_loads pillow_env p) [1, 1 div 2])
     text_font_paths = [] \<and>
   resolve_fonts pillow_env text_font_paths [1, 1 div 2] =
     [Some (FreeTypeFont (py_str ''/usr/share/fonts/truetype/dejavu/DejaVuSans.ttf'') 1), None] \<and>
   resolve_fonts pillow_env text_font_paths [1, 1 div 2] \<noteq> [Some DefaultFont, Some DefaultFont]"
  by (simp add: pillow_env_def text_font_paths_def resolve_fonts_def py_str_def)


lemma create_text_image_partial_load:
  "\<exists>a. create_text_image pillow_env (py_str ''a'') RESOLUTION 1 (COLORS Text) (COLORS Bg_dark)
          (Some (py_str ''b'')) = Inr a \<and>
       text_fonts (im_ops (raster a)) =
         [Some (FreeTypeFont (py_str ''/usr/share/fonts/truetype/dejavu/DejaVuSans.ttf'') 1), None]"
proof -
  have r: "resolve_fonts pillow_env text_font_paths [1, 0] =
     [Some (FreeTypeFont (py_str ''/usr/share/fonts/truetype/dejavu/DejaVuSans.ttf'') 1), None]"
    by (simp add: pillow_env_def text_font_paths_def resolve_fonts_def py_str_def)
  show ?thesis
    unfolding create_text_image_def
    by (simp add: rgb_literals r Image_new_def RESOLUTION_def and_then_def Let_def truthy_def
          draw_def np_array_def py_str_def [of "''b''"] py_str_def [of "''a''"])
qed

text \<open>
  Claim C2 says that the fonts come from the first path that exists and loads at every
  size (lemma \<open>resolve_fonts_first_good\<close>: so they do), and that otherwise every size
  gets the default font. The second part holds when no existing path loads even the first
  size (lemma \<open>resolve_fonts_none_loads\<close>), but after the loop the code tests the first
  variable only. Where a file loads at the first size and raises at a later one, the first
  variable keeps the font of that file and the later ones stay \<open>None\<close>: no default is
  assigned. \<open>create_text_image\<close> with \<open>font_size = 1\<close> asks for the sizes 1 and 0
  and draws its subtext with the font \<open>None\<close>.
\<close>
theorem resolve_fonts_partial_load:
  "filter (\<lambda>p. path_exists pillow_env p \<and> list_all (truetype_loads pillow_env p) [1, 1 div 2])
     text_font_paths = [] \<and>
   resolve_fonts pillow_env text_font_paths [1, 1 div 2] =
     [Some (FreeTypeFont (py_str ''/usr/share/fonts/truetype/dejavu/DejaVuSans.ttf'') 1), None] \<and>
   resolve_fonts pillow_env text_font_paths [1, 1 div 2] \<noteq> [Some DefaultFont, Some DefaultFont] \<and>
   (\<exists>a. create_text_image pillow_env (py_str ''a'') RESOLUTION 1 (COLORS Text) (COLORS Bg_dark)
          (Some (py_str ''b'')) = Inr a \<and>
        text_fonts (im_ops (raster a)) =
          [Some (FreeTypeFont (py_str ''/usr/share/fonts/truetype/dejavu/DejaVuSans.ttf'') 1), None])"
  using resolve_fonts_pillow create_text_image_partial_load by blast

section \<open>The comparison chart\<close>








end
